theory Spec2Isabelle
  imports Complex_Main "HOL-Library.AList"
begin

section \<open>Scoring engine\<close>

text \<open>
  A JavaScript string is a sequence of UTF-16 code units.  The scorers only index their
  arguments and compare the units with \<^verbatim>\<open>===\<close>, so the type of a unit is left open
  (\<open>'a\<close>).  Reading \<^verbatim>\<open>s[i]\<close> beyond the end of a string gives \<^verbatim>\<open>undefined\<close>, which is
  \<open>None\<close> here.
\<close>

definition charAt :: "'a list \<Rightarrow> nat \<Rightarrow> 'a option" where
  "charAt s i = (if i < length s then Some (s ! i) else None)"

datatype status = Correct | Present | Absent | Pending

text \<open>
  The result entries.  The word and the equation scorer build \<^verbatim>\<open>{letter, status}\<close>, the
  idiom scorer of \<^verbatim>\<open>utils.js\<close> builds \<^verbatim>\<open>{char, letter, status}\<close>, the idiom game adds the
  \<^verbatim>\<open>pinyin\<close> feedback \<^verbatim>\<open>{initial, final, tone}\<close> (a \<^verbatim>\<open>null\<close> field is \<open>None\<close>).  A parsed
  syllable has the same three field names, with strings and a number in them.
\<close>

record 'a cell =
  letter :: "'a option"
  status :: status

record 'a idiom_cell = "'a cell" +
  char :: "'a option"

record ('s, 't) pinyinParts =
  initial :: 's
  final :: 's
  tone :: 't

type_synonym pinyinInfo = "(status option, status option) pinyinParts"

record 'a pinyin_cell = "'a idiom_cell" +
  pinyin :: pinyinInfo

text \<open>
  The frequency table is \<^verbatim>\<open>Object.create(null)\<close>: a dictionary without inherited keys.
  Its keys are property names; the name of a code unit \<open>c\<close> is \<open>Some c\<close> and the name
  \<^verbatim>\<open>"undefined"\<close>, which \<^verbatim>\<open>freq[undefined]\<close> reads, is \<open>None\<close>.
  \<open>orZero\<close> is \<^verbatim>\<open>freq[k] || 0\<close>; the test \<^verbatim>\<open>freq[g] > 0\<close> is false on a missing key.
\<close>

type_synonym 'a freq = "'a option \<rightharpoonup> nat"

definition orZero :: "nat option \<Rightarrow> nat" where
  "orZero v = (case v of None \<Rightarrow> 0 | Some n \<Rightarrow> n)"

text \<open>
  First loop body.  The three scorers run the same two loops and differ only in the entry
  they store: \<open>mk i g s\<close> is the entry literal of the scorer for position \<open>i\<close>, symbol
  \<open>g\<close> and status \<open>s\<close>.  The loop fills \<^verbatim>\<open>result[0]\<close>, \<^verbatim>\<open>result[1]\<close>, ... in this order,
  so storing at index \<open>i\<close> appends.
\<close>

definition pass1_step ::
  "(nat \<Rightarrow> 'a option \<Rightarrow> status \<Rightarrow> ('a, 'b) cell_scheme) \<Rightarrow> 'a list \<Rightarrow> 'a list \<Rightarrow> nat \<Rightarrow>
   ('a, 'b) cell_scheme list \<times> 'a freq \<Rightarrow> ('a, 'b) cell_scheme list \<times> 'a freq" where
  "pass1_step mk guess target i = (\<lambda>(result, freq).
     let g = charAt guess i; t = charAt target i in
     if g = t then (result @ [mk i g Correct], freq)
     else (result @ [mk i g Pending], freq(t \<mapsto> orZero (freq t) + 1)))"

text \<open>Second loop body: a pending entry becomes present or absent.\<close>

definition pass2_step ::
  "'a list \<Rightarrow> nat \<Rightarrow>
   ('a, 'b) cell_scheme list \<times> 'a freq \<Rightarrow> ('a, 'b) cell_scheme list \<times> 'a freq" where
  "pass2_step guess i = (\<lambda>(result, freq).
     if status (result ! i) = Pending then
       (let g = charAt guess i in
        if orZero (freq g) > 0
        then (result[i := (result ! i)\<lparr>status := Present\<rparr>], freq(g \<mapsto> orZero (freq g) - 1))
        else (result[i := (result ! i)\<lparr>status := Absent\<rparr>], freq))
     else (result, freq))"

text \<open>Both loops run over \<open>0 \<le> i < target.length\<close>.\<close>

definition twoPass ::
  "(nat \<Rightarrow> 'a option \<Rightarrow> status \<Rightarrow> ('a, 'b) cell_scheme) \<Rightarrow> 'a list \<Rightarrow> 'a list \<Rightarrow>
   ('a, 'b) cell_scheme list" where
  "twoPass mk guess target =
     (let n = length target;
          s1 = fold (pass1_step mk guess target) [0..<n] ([], Map.empty);
          s2 = fold (pass2_step guess) [0..<n] s1
      in fst s2)"

text \<open>
  \<^verbatim>\<open>WordleUtils.checkGuess\<close>, default (word) branch: both strings are lower-cased, and no
  length is compared.  \<^verbatim>\<open>String.prototype.toLowerCase\<close> is the parameter \<open>toLowerCase\<close>.
\<close>

definition checkGuess_word :: "('a list \<Rightarrow> 'a list) \<Rightarrow> 'a list \<Rightarrow> 'a list \<Rightarrow> 'a cell list" where
  "checkGuess_word toLowerCase guess target =
     twoPass (\<lambda>i g s. \<lparr>letter = g, status = s\<rparr>) (toLowerCase guess) (toLowerCase target)"

text \<open>\<^verbatim>\<open>EquationData.checkGuess\<close>; \<^verbatim>\<open>!guess\<close> holds for the empty string.\<close>

definition equation_checkGuess :: "'a list \<Rightarrow> 'a list \<Rightarrow> 'a cell list" where
  "equation_checkGuess guess target =
     (if guess = [] \<or> target = [] \<or> length guess \<noteq> length target then []
      else twoPass (\<lambda>i g s. \<lparr>letter = g, status = s\<rparr>) guess target)"

text \<open>\<^verbatim>\<open>WordleUtils.checkIdiomGuess\<close>.\<close>

definition checkIdiomGuess :: "'a list \<Rightarrow> 'a list \<Rightarrow> 'a idiom_cell list" where
  "checkIdiomGuess guess target =
     (if guess = [] \<or> target = [] \<or> length guess \<noteq> length target then []
      else twoPass (\<lambda>i g s. \<lparr>letter = g, status = s, char = g\<rparr>) guess target)"

text \<open>
  The game types \<^verbatim>\<open>'word'\<close>, \<^verbatim>\<open>'equation'\<close> and \<^verbatim>\<open>'idiom'\<close>; any other value takes the word
  branch below, as \<open>Word\<close> does.
\<close>

datatype gameType = Word | Equation | Idiom

text \<open>
  \<^verbatim>\<open>WordleUtils.checkGuess\<close> with its dispatch on the game type; the idiom branch returns
  entries of another shape, hence the sum.
\<close>

definition checkGuess ::
  "('a list \<Rightarrow> 'a list) \<Rightarrow> 'a list \<Rightarrow> 'a list \<Rightarrow> gameType \<Rightarrow> 'a cell list + 'a idiom_cell list" where
  "checkGuess toLowerCase guess target gameType =
     (if gameType = Equation then Inl (equation_checkGuess guess target)
      else if gameType = Idiom then Inr (checkIdiomGuess guess target)
      else Inl (checkGuess_word toLowerCase guess target))"

section \<open>Pinyin parser\<close>

text \<open>
  Strings with a fixed alphabet are lists of UTF-16 code units, given by their numbers;
  \<open>js\<close> writes an ASCII literal.
\<close>

type_synonym jsstring = "nat list"

definition js :: "string \<Rightarrow> jsstring" where
  "js s = map of_char s"

text \<open>
  The white space of \<^verbatim>\<open>String.prototype.trim\<close> and of the class \<^verbatim>\<open>\s\<close>: TAB, LF, VT, FF,
  CR, SP, NBSP, U+1680, U+2000 to U+200A, LS, PS, U+202F, U+205F, U+3000 and U+FEFF.
\<close>

definition isWhiteSpace :: "nat \<Rightarrow> bool" where
  "isWhiteSpace c \<longleftrightarrow>
     c \<in> set [9, 10, 11, 12, 13, 32, 160, 5760, 8232, 8233, 8239, 8287, 12288, 65279]
     \<or> (8192 \<le> c \<and> c \<le> 8202)"

definition trim :: "jsstring \<Rightarrow> jsstring" where
  "trim s = rev (dropWhile isWhiteSpace (rev (dropWhile isWhiteSpace s)))"

text \<open>
  \<^verbatim>\<open>s.split(/\s+/)\<close>: the pieces between the maximal runs of white space; a run at either
  end leaves an empty piece there, and the empty string gives one empty piece.  \<open>inRun\<close>
  says that the previous unit was white space, \<open>cur\<close> is the piece read so far.
\<close>

fun splitLoop :: "bool \<Rightarrow> jsstring \<Rightarrow> jsstring \<Rightarrow> jsstring list" where
  "splitLoop inRun cur [] = [cur]"
| "splitLoop inRun cur (c # cs) =
     (if isWhiteSpace c then (if inRun then splitLoop True cur cs else cur # splitLoop True [] cs)
      else splitLoop False (cur @ [c]) cs)"

definition splitWhiteSpace :: "jsstring \<Rightarrow> jsstring list" where
  "splitWhiteSpace s = splitLoop False [] s"

text \<open>
  The two tables of \<^verbatim>\<open>parsePinyin\<close>, in source order: the 24 vowels with a tone mark
  (a, e, i, o, u, then the four of \<^verbatim>\<open>u\<close> with diaeresis, which the source maps to \<^verbatim>\<open>u\<close>).
\<close>

definition toneMap :: "(nat \<times> nat) list" where
  "toneMap =
     [(257, 1), (225, 2), (462, 3), (224, 4),
      (275, 1), (233, 2), (283, 3), (232, 4),
      (299, 1), (237, 2), (464, 3), (236, 4),
      (333, 1), (243, 2), (466, 3), (242, 4),
      (363, 1), (250, 2), (468, 3), (249, 4),
      (470, 1), (472, 2), (474, 3), (476, 4)]"

definition baseMap :: "(nat \<times> nat) list" where
  "baseMap =
     [(257, 97), (225, 97), (462, 97), (224, 97),
      (275, 101), (233, 101), (283, 101), (232, 101),
      (299, 105), (237, 105), (464, 105), (236, 105),
      (333, 111), (243, 111), (466, 111), (242, 111),
      (363, 117), (250, 117), (468, 117), (249, 117),
      (470, 117), (472, 117), (474, 117), (476, 117)]"

definition initials :: "jsstring list" where
  "initials = map js
     [''b'', ''p'', ''m'', ''f'', ''d'', ''t'', ''n'', ''l'', ''g'', ''k'', ''h'',
      ''j'', ''q'', ''x'', ''zh'', ''ch'', ''sh'', ''r'', ''z'', ''c'', ''s'', ''y'', ''w'']"

definition startsWith :: "jsstring \<Rightarrow> jsstring \<Rightarrow> bool" where
  "startsWith s p \<longleftrightarrow> take (length p) s = p"

type_synonym syllable = "(jsstring, nat) pinyinParts"

text \<open>
  The loop over the characters of the syllable.  The source iterates code points; every
  key of the tables is one code unit, and any other character is copied as it is, so the
  loop over code units computes the same tone and the same cleaned string.
\<close>

definition stripTone :: "nat \<Rightarrow> nat \<times> jsstring \<Rightarrow> nat \<times> jsstring" where
  "stripTone ch = (\<lambda>(tone, cleanedPinyin).
     case map_of toneMap ch of
       Some tn \<Rightarrow> (tn, cleanedPinyin @ [case map_of baseMap ch of Some b \<Rightarrow> b | None \<Rightarrow> ch])
     | None \<Rightarrow> (tone, cleanedPinyin @ [ch]))"

definition isToneDigit :: "nat \<Rightarrow> bool" where
  "isToneDigit c \<longleftrightarrow> 49 \<le> c \<and> c \<le> 52"

text \<open>
  \<^verbatim>\<open>parsePinyin\<close>.  Without a tone mark, a final digit 1 to 4 of the trimmed input is the
  tone, and a final digit 1 to 4 of the cleaned string is removed.  The first entry of
  \<open>initials\<close> that the cleaned string starts with is the initial; the rest is the final.
\<close>

definition parsePinyin :: "jsstring \<Rightarrow> syllable" where
  "parsePinyin pinyin0 =
     (if pinyin0 = [] then \<lparr>initial = [], final = [], tone = 0\<rparr>
      else
        let pinyin = trim pinyin0;
            (tone1, cleaned1) = fold stripTone pinyin (0, []);
            (tone2, cleaned2) =
              (if tone1 = 0 then
                 (if pinyin \<noteq> [] \<and> isToneDigit (last pinyin)
                  then (last pinyin - 48,
                        if cleaned1 \<noteq> [] \<and> isToneDigit (last cleaned1)
                        then butlast cleaned1 else cleaned1)
                  else (tone1, cleaned1))
               else (tone1, cleaned1))
        in case find (startsWith cleaned2) initials of
             Some init \<Rightarrow> \<lparr>initial = init, final = drop (length init) cleaned2, tone = tone2\<rparr>
           | None \<Rightarrow> \<lparr>initial = [], final = cleaned2, tone = tone2\<rparr>)"

definition parsePinyinString :: "jsstring \<Rightarrow> syllable list" where
  "parsePinyinString pinyinString =
     (if pinyinString = [] then []
      else map parsePinyin (splitWhiteSpace (trim pinyinString)))"

section \<open>Idiom scorer with pinyin feedback\<close>

text \<open>
  The four inner loops of \<^verbatim>\<open>IdiomGame.checkIdiomGuess\<close> have one shape: they look for a
  position \<open>j\<close> other than \<open>i\<close>, below the idiom length \<open>n\<close> and inside the target's
  syllable array, whose syllable passes a test.
\<close>

definition existsOther :: "nat \<Rightarrow> nat \<Rightarrow> syllable list \<Rightarrow> (syllable \<Rightarrow> bool) \<Rightarrow> bool" where
  "existsOther n i targetPinyinArray P =
     list_ex (\<lambda>j. j \<noteq> i \<and> j < length targetPinyinArray \<and> P (targetPinyinArray ! j)) [0..<n]"

definition pinyinInfoAt :: "nat \<Rightarrow> nat \<Rightarrow> syllable list \<Rightarrow> syllable list \<Rightarrow> pinyinInfo" where
  "pinyinInfoAt n i guessPinyinArray targetPinyinArray =
     (if i < length guessPinyinArray \<and> i < length targetPinyinArray then
        let guessPy = guessPinyinArray ! i; targetPy = targetPinyinArray ! i in
        \<lparr>initial = Some
           (if initial guessPy = initial targetPy then Correct
            else if existsOther n i targetPinyinArray (\<lambda>s. initial s = initial guessPy)
                 then Present else Absent),
         final = Some
           (if final guessPy = final targetPy then Correct
            else if existsOther n i targetPinyinArray (\<lambda>s. final s = final guessPy)
                 then Present else Absent),
         tone = Some
           (if tone guessPy = tone targetPy then
              (if final guessPy = final targetPy then Correct
               else if existsOther n i targetPinyinArray
                         (\<lambda>s. tone s = tone guessPy \<and> final s = final guessPy)
                    then Present else Correct)
            else if existsOther n i targetPinyinArray (\<lambda>s. tone s = tone guessPy)
                 then Present else Absent)\<rparr>
      else \<lparr>initial = None, final = None, tone = None\<rparr>)"

text \<open>
  \<^verbatim>\<open>IdiomGame.checkIdiomGuess\<close>: the pinyin strings are parsed first (an empty one gives no
  syllables), and every entry carries the pinyin feedback of its position.
\<close>

definition game_checkIdiomGuess ::
  "'a list \<Rightarrow> 'a list \<Rightarrow> jsstring \<Rightarrow> jsstring \<Rightarrow> 'a pinyin_cell list" where
  "game_checkIdiomGuess guess target guessPinyin targetPinyin =
     (if guess = [] \<or> target = [] \<or> length guess \<noteq> length target then []
      else
        let guessPinyinArray = (if guessPinyin = [] then [] else parsePinyinString guessPinyin);
            targetPinyinArray = (if targetPinyin = [] then [] else parsePinyinString targetPinyin)
        in twoPass
             (\<lambda>i g s. \<lparr>letter = g, status = s, char = g,
                        pinyin = pinyinInfoAt (length target) i guessPinyinArray targetPinyinArray\<rparr>)
             guess target)"

section \<open>Measures used in the statements\<close>

text \<open>
  The number of entries of a result that carry the symbol \<open>c\<close> and are marked correct or
  present.
\<close>

definition markedCount :: "'a \<Rightarrow> ('a, 'b) cell_scheme list \<Rightarrow> nat" where
  "markedCount c result =
     length (filter (\<lambda>e. letter e = Some c \<and> (status e = Correct \<or> status e = Present)) result)"

text \<open>
  \<^verbatim>\<open>toLowerCase\<close> on strings of 8-bit characters, for the examples: the letters A to Z move
  to a to z, every other character stays.
\<close>

definition toLowerCaseAscii :: "string \<Rightarrow> string" where
  "toLowerCaseAscii =
     map (\<lambda>c. if 65 \<le> (of_char c :: nat) \<and> (of_char c :: nat) \<le> 90
              then char_of (of_char c + 32 :: nat) else c)"

text \<open>
  What a returned result looks like for a guess and a target of equal length: one entry
  for each position of the target, each with the guess symbol of its position and a status
  other than the provisional one.
\<close>

definition wellScored :: "'a list \<Rightarrow> 'a list \<Rightarrow> ('a, 'b) cell_scheme list \<Rightarrow> bool" where
  "wellScored guess target result \<longleftrightarrow>
     length result = length target \<and>
     (\<forall>i<length target. letter (result ! i) = Some (guess ! i) \<and>
        (status (result ! i) = Correct \<or> status (result ! i) = Present \<or>
         status (result ! i) = Absent))"

section \<open>Leaderboard\<close>

text \<open>
  A leaderboard file holds one JSON object from player id to \<^verbatim>\<open>{nickname, wins, gamesPlayed}\<close>.
  The object is the list of its entries in enumeration order (what \<^verbatim>\<open>Object.entries\<close>
  returns), with distinct keys; \<open>map_of\<close> reads a key and \<open>AList.update\<close> writes one.
  A new key is put last here; JavaScript enumerates keys that are array indices before
  the others, which changes the enumeration order only.  Player ids are account ids;
  property names that an object inherits (such as \<^verbatim>\<open>constructor\<close>) are not modelled.
  Counters are natural numbers, \<^verbatim>\<open>x || 0\<close> on a counter is the counter.
\<close>

record participant =
  userId :: "jsstring option"
  nickname :: "jsstring option"

record lbEntry =
  nickname :: jsstring
  wins :: nat
  gamesPlayed :: nat

type_synonym table = "(jsstring \<times> lbEntry) list"

text \<open>The files \<^verbatim>\<open>leaderboard_<id>.json\<close> of the data directory, by their \<^verbatim>\<open><id>\<close>.\<close>

type_synonym boards = "jsstring \<rightharpoonup> table"

definition leaderboardId :: "jsstring option \<Rightarrow> jsstring" where
  "leaderboardId groupId = (case groupId of None \<Rightarrow> js ''global'' | Some g \<Rightarrow> g)"

text \<open>\<^verbatim>\<open>_readLeaderboard\<close>: a missing file is the empty object.\<close>

definition readLeaderboard :: "boards \<Rightarrow> jsstring option \<Rightarrow> table" where
  "readLeaderboard files groupId =
     (case files (leaderboardId groupId) of None \<Rightarrow> [] | Some t \<Rightarrow> t)"

definition writeLeaderboard :: "boards \<Rightarrow> jsstring option \<Rightarrow> table \<Rightarrow> boards" where
  "writeLeaderboard files groupId data = files(leaderboardId groupId \<mapsto> data)"

text \<open>\<^verbatim>\<open>_normalizeNickname\<close>; the fallback is the two characters U+73A9 U+5BB6 and the id.\<close>

definition normalizeNickname :: "jsstring option \<Rightarrow> jsstring \<Rightarrow> jsstring" where
  "normalizeNickname nick fallback =
     (case nick of
        Some s \<Rightarrow> if trim s \<noteq> [] then trim s else [29609, 23478] @ fallback
      | None \<Rightarrow> [29609, 23478] @ fallback)"

text \<open>\<^verbatim>\<open>if (!leaderboard[id]) leaderboard[id] = { nickname, wins: 0, gamesPlayed: 0 }\<close>.\<close>

definition entryOrNew :: "table \<Rightarrow> jsstring \<Rightarrow> jsstring \<Rightarrow> lbEntry" where
  "entryOrNew leaderboard uid nick =
     (case map_of leaderboard uid of
        None \<Rightarrow> \<lparr>nickname = nick, wins = 0, gamesPlayed = 0\<rparr>
      | Some e \<Rightarrow> e)"

text \<open>
  The body of the loop over the participants of \<^verbatim>\<open>recordGameResult\<close>; the state is the
  table and the set of ids seen in this call.  A \<^verbatim>\<open>null\<close> participant is \<open>None\<close>.
\<close>

definition recordParticipant ::
  "participant option \<Rightarrow> table \<times> jsstring set \<Rightarrow> table \<times> jsstring set" where
  "recordParticipant p = (\<lambda>(leaderboard, participantSet).
     case p of
       None \<Rightarrow> (leaderboard, participantSet)
     | Some part \<Rightarrow>
        (case userId part of
           None \<Rightarrow> (leaderboard, participantSet)
         | Some uid \<Rightarrow>
            if uid \<in> participantSet then (leaderboard, participantSet)
            else
              let nick = normalizeNickname (participant.nickname part) uid;
                  e = entryOrNew leaderboard uid nick
              in (AList.update uid (e\<lparr>nickname := nick, gamesPlayed := gamesPlayed e + 1\<rparr>)
                    leaderboard,
                  insert uid participantSet)))"

text \<open>
  The winner's part: \<^verbatim>\<open>winnerName || leaderboard[id]?.nickname\<close> is the given name
  unless it is empty.
\<close>

definition recordWinner ::
  "jsstring option \<Rightarrow> jsstring \<Rightarrow> table \<times> jsstring set \<Rightarrow> table" where
  "recordWinner winnerId winnerName = (\<lambda>(leaderboard, participantSet).
     case winnerId of
       None \<Rightarrow> leaderboard
     | Some uid \<Rightarrow>
        let nick = normalizeNickname
                     (if winnerName \<noteq> [] then Some winnerName
                      else map_option lbEntry.nickname (map_of leaderboard uid)) uid;
            e = entryOrNew leaderboard uid nick
        in AList.update uid
             (e\<lparr>nickname := nick, wins := wins e + 1,
                gamesPlayed := (if uid \<in> participantSet then gamesPlayed e
                                else gamesPlayed e + 1)\<rparr>)
             leaderboard)"

definition recordGameResult ::
  "boards \<Rightarrow> jsstring option \<Rightarrow> participant option list \<Rightarrow> jsstring option \<Rightarrow> jsstring \<Rightarrow> boards" where
  "recordGameResult files groupId participants winnerId winnerName =
     (let leaderboard = readLeaderboard files groupId;
          afterLoop = fold recordParticipant participants (leaderboard, {})
      in writeLeaderboard files groupId (recordWinner winnerId winnerName afterLoop))"

text \<open>
  The rows of a ranking.  \<^verbatim>\<open>_calculateWinRate\<close> computes with doubles and rounds with
  \<^verbatim>\<open>toFixed(2)\<close>; it is the parameter \<open>rate\<close> of the rankings, so that nothing proved
  below depends on how doubles round.
\<close>

type_synonym number = rat

record player = lbEntry +
  userId :: jsstring
  winRate :: number

definition toPlayer :: "(nat \<Rightarrow> nat \<Rightarrow> number) \<Rightarrow> jsstring \<times> lbEntry \<Rightarrow> player" where
  "toPlayer rate = (\<lambda>(uid, data).
     \<lparr>nickname = lbEntry.nickname data, wins = wins data, gamesPlayed = gamesPlayed data,
      userId = uid, winRate = rate (wins data) (gamesPlayed data)\<rparr>)"

text \<open>
  \<^verbatim>\<open>Array.prototype.sort\<close> with a comparison function is stable; for a consistent
  comparison function its result is the stable sorted arrangement, which insertion from
  the right computes: \<open>x\<close> stays in front of the elements that do not have to precede it.
\<close>

fun insertBy :: "('a \<Rightarrow> 'a \<Rightarrow> number) \<Rightarrow> 'a \<Rightarrow> 'a list \<Rightarrow> 'a list" where
  "insertBy cmp x [] = [x]"
| "insertBy cmp x (y # ys) = (if cmp x y \<le> 0 then x # y # ys else y # insertBy cmp x ys)"

definition sortBy :: "('a \<Rightarrow> 'a \<Rightarrow> number) \<Rightarrow> 'a list \<Rightarrow> 'a list" where
  "sortBy cmp xs = foldr (insertBy cmp) xs []"

text \<open>
  The three comparison functions.  \<open>localeCompare\<close> stands for
  \<^verbatim>\<open>a.localeCompare(b, 'zh-Hans-CN')\<close>, the collation of the runtime.
\<close>

definition cmpGames :: "(jsstring \<Rightarrow> jsstring \<Rightarrow> int) \<Rightarrow> player \<Rightarrow> player \<Rightarrow> number" where
  "cmpGames localeCompare a b =
     (if gamesPlayed b \<noteq> gamesPlayed a then of_nat (gamesPlayed b) - of_nat (gamesPlayed a)
      else if wins b \<noteq> wins a then of_nat (wins b) - of_nat (wins a)
      else of_int (localeCompare (userId a) (userId b)))"

definition cmpRate :: "(jsstring \<Rightarrow> jsstring \<Rightarrow> int) \<Rightarrow> player \<Rightarrow> player \<Rightarrow> number" where
  "cmpRate localeCompare a b =
     (if winRate b \<noteq> winRate a then winRate b - winRate a
      else if gamesPlayed b \<noteq> gamesPlayed a then of_nat (gamesPlayed b) - of_nat (gamesPlayed a)
      else of_int (localeCompare (userId a) (userId b)))"

definition cmpWins :: "(jsstring \<Rightarrow> jsstring \<Rightarrow> int) \<Rightarrow> player \<Rightarrow> player \<Rightarrow> number" where
  "cmpWins localeCompare a b =
     (if wins b \<noteq> wins a then of_nat (wins b) - of_nat (wins a)
      else if gamesPlayed b \<noteq> gamesPlayed a then of_nat (gamesPlayed b) - of_nat (gamesPlayed a)
      else of_int (localeCompare (userId a) (userId b)))"

text \<open>The sort keys \<^verbatim>\<open>'wins'\<close>, \<^verbatim>\<open>'games'\<close> and \<^verbatim>\<open>'rate'\<close>; any other value sorts as \<^verbatim>\<open>'wins'\<close>.\<close>

datatype sortKey = SortWins | SortGames | SortRate

text \<open>\<^verbatim>\<open>sorted.slice(0, limit)\<close>; a negative limit counts from the end.\<close>

definition slice0 :: "'a list \<Rightarrow> int \<Rightarrow> 'a list" where
  "slice0 xs limit =
     (if limit < 0 then take (nat (int (length xs) + limit)) xs else take (nat limit) xs)"

text \<open>
  The \<^verbatim>\<open>switch\<close> on the sort key and the final slice, which \<^verbatim>\<open>getLeaderboard\<close> and
  \<^verbatim>\<open>getGlobalLeaderboard\<close> repeat word for word.
\<close>

definition rankPlayers ::
  "(jsstring \<Rightarrow> jsstring \<Rightarrow> int) \<Rightarrow> player list \<Rightarrow> sortKey \<Rightarrow> int \<Rightarrow> player list" where
  "rankPlayers localeCompare players sortKey limit =
     slice0
       (case sortKey of
          SortGames \<Rightarrow> sortBy (cmpGames localeCompare) players
        | SortRate \<Rightarrow> sortBy (cmpRate localeCompare) (filter (\<lambda>p. gamesPlayed p \<ge> 3) players)
        | SortWins \<Rightarrow> sortBy (cmpWins localeCompare) players)
       limit"

definition getLeaderboard ::
  "(nat \<Rightarrow> nat \<Rightarrow> number) \<Rightarrow> (jsstring \<Rightarrow> jsstring \<Rightarrow> int) \<Rightarrow>
   boards \<Rightarrow> jsstring option \<Rightarrow> sortKey \<Rightarrow> int \<Rightarrow> player list" where
  "getLeaderboard rate localeCompare files groupId sortKey limit =
     rankPlayers localeCompare (map (toPlayer rate) (readLeaderboard files groupId)) sortKey limit"

text \<open>
  The merge of \<^verbatim>\<open>getGlobalLeaderboard\<close>: \<^verbatim>\<open>globalStats\<close> is a \<^verbatim>\<open>Map\<close>, which keeps insertion
  order, so \<open>AList.update\<close> is its \<^verbatim>\<open>set\<close>.  A non-empty nickname replaces the stored one.
\<close>

definition mergeEntry :: "jsstring \<times> lbEntry \<Rightarrow> table \<Rightarrow> table" where
  "mergeEntry = (\<lambda>(uid, data) globalStats.
     let stats = (case map_of globalStats uid of
                    None \<Rightarrow> \<lparr>nickname = lbEntry.nickname data, wins = 0, gamesPlayed = 0\<rparr>
                  | Some st \<Rightarrow> st)
     in AList.update uid
          \<lparr>nickname = (if lbEntry.nickname data \<noteq> [] then lbEntry.nickname data
                        else lbEntry.nickname stats),
           wins = wins stats + wins data,
           gamesPlayed = gamesPlayed stats + gamesPlayed data\<rparr>
          globalStats)"

definition mergeBoards :: "boards \<Rightarrow> jsstring list \<Rightarrow> table" where
  "mergeBoards files groupIds =
     fold (\<lambda>groupId globalStats. fold mergeEntry (readLeaderboard files (Some groupId)) globalStats)
       groupIds []"

text \<open>
  \<open>groupIds\<close> is the result of \<^verbatim>\<open>_getAllGroupIds\<close>: the ids of the leaderboard files in the
  order of the directory listing, without \<^verbatim>\<open>global\<close>.
\<close>

definition getGlobalLeaderboard ::
  "(nat \<Rightarrow> nat \<Rightarrow> number) \<Rightarrow> (jsstring \<Rightarrow> jsstring \<Rightarrow> int) \<Rightarrow>
   boards \<Rightarrow> jsstring list \<Rightarrow> sortKey \<Rightarrow> int \<Rightarrow> player list" where
  "getGlobalLeaderboard rate localeCompare files groupIds sortKey limit =
     rankPlayers localeCompare (map (toPlayer rate) (mergeBoards files groupIds)) sortKey limit"

text \<open>
  A comparison of strings by code units, as a stand-in for the collation in the examples:
  on ids made of digits or of lower-case ASCII letters every collation agrees with it.
\<close>

fun compareUnits :: "jsstring \<Rightarrow> jsstring \<Rightarrow> int" where
  "compareUnits [] [] = 0"
| "compareUnits [] (y # ys) = - 1"
| "compareUnits (x # xs) [] = 1"
| "compareUnits (x # xs) (y # ys) =
     (if x < y then - 1 else if y < x then 1 else compareUnits xs ys)"

text \<open>
  The order that a ranking by games has to follow: more games first, then more wins, then
  the smaller id.
\<close>

definition gamesOrder :: "(jsstring \<Rightarrow> jsstring \<Rightarrow> int) \<Rightarrow> player \<Rightarrow> player \<Rightarrow> bool" where
  "gamesOrder localeCompare a b \<longleftrightarrow>
     gamesPlayed a > gamesPlayed b \<or>
     (gamesPlayed a = gamesPlayed b \<and>
        (wins a > wins b \<or> (wins a = wins b \<and> localeCompare (userId a) (userId b) \<le> 0)))"

text \<open>A comparison function is consistent when it is total and transitive.\<close>

definition consistent :: "('a \<Rightarrow> 'a \<Rightarrow> int) \<Rightarrow> bool" where
  "consistent cmp \<longleftrightarrow>
     (\<forall>a b. cmp a b \<le> 0 \<or> cmp b a \<le> 0) \<and>
     (\<forall>a b c. cmp a b \<le> 0 \<and> cmp b c \<le> 0 \<longrightarrow> cmp a c \<le> 0)"





section \<open>Session store\<close>

text \<open>
  The stored game record.  A word game has no \<^verbatim>\<open>gameType\<close>, \<^verbatim>\<open>targetPinyin\<close> or
  \<^verbatim>\<open>guessesPinyin\<close> field (\<open>None\<close>).  \<^verbatim>\<open>participants\<close> is an object from player id to
  \<^verbatim>\<open>{nickname}\<close>, kept as the list of its entries like a leaderboard table.
\<close>

record game =
  targetWord :: jsstring
  targetPinyin :: "jsstring option"
  guesses :: "jsstring list"
  guessesPinyin :: "jsstring list option"
  attempts :: nat
  maxAttempts :: nat
  finished :: bool
  startTime :: nat
  letterCount :: nat
  gameType :: "gameType option"
  participants :: "(jsstring \<times> jsstring) list"

text \<open>
  The key-value collaborator: \<open>None\<close> when \<^verbatim>\<open>global.redis\<close> is not there, else the stored
  values by key.  A game is stored as its JSON text and parsed on reading, which gives the
  same record back; the expiry of 24 hours set on every write is not modelled.
\<close>

type_synonym redis = "(jsstring \<rightharpoonup> game) option"

text \<open>
  \<^verbatim>\<open>GAME_KEY_PREFIX + groupId\<close>: the functions of \<^verbatim>\<open>db.js\<close> have the group id as their only
  key parameter, and string concatenation turns \<^verbatim>\<open>null\<close> into \<^verbatim>\<open>"null"\<close>.
\<close>

definition gameKeyOf :: "jsstring option \<Rightarrow> jsstring" where
  "gameKeyOf groupId = js ''wordle:game:'' @ (case groupId of None \<Rightarrow> js ''null'' | Some g \<Rightarrow> g)"

definition getGameData :: "redis \<Rightarrow> jsstring option \<Rightarrow> game option" where
  "getGameData r groupId = (case r of None \<Rightarrow> None | Some kv \<Rightarrow> kv (gameKeyOf groupId))"

definition saveGameData :: "redis \<Rightarrow> jsstring option \<Rightarrow> game \<Rightarrow> redis \<times> bool" where
  "saveGameData r groupId gameData =
     (case r of None \<Rightarrow> (None, False)
      | Some kv \<Rightarrow> (Some (kv(gameKeyOf groupId \<mapsto> gameData)), True))"

definition deleteGameData :: "redis \<Rightarrow> jsstring option \<Rightarrow> redis \<times> bool" where
  "deleteGameData r groupId =
     (case r of None \<Rightarrow> (None, True)
      | Some kv \<Rightarrow> (Some (kv(gameKeyOf groupId := None)), True))"

text \<open>
  The message event, with the fields that the game code reads; ids are given as strings.
  \<open>orNull\<close> is \<^verbatim>\<open>x || null\<close> on an optional string.
\<close>

record event =
  group_id :: "jsstring option"
  user_id :: "jsstring option"
  sender_user_id :: "jsstring option"
  sender_card :: "jsstring option"
  sender_nickname :: "jsstring option"

definition orNull :: "jsstring option \<Rightarrow> jsstring option" where
  "orNull x = (case x of None \<Rightarrow> None | Some s \<Rightarrow> if s = [] then None else Some s)"

text \<open>\<^verbatim>\<open>_getGameContext\<close>: the group id, the user id and the game key of an event.\<close>

definition getGameContext :: "event \<Rightarrow> jsstring option \<times> jsstring option \<times> jsstring option" where
  "getGameContext e =
     (let groupId = orNull (group_id e);
          userId = orNull (user_id e);
          gameKey = (case groupId of
                       Some g \<Rightarrow> Some g
                     | None \<Rightarrow> (case userId of Some u \<Rightarrow> Some (js ''private_'' @ u) | None \<Rightarrow> None))
      in (groupId, userId, gameKey))"

definition getUserId :: "event \<Rightarrow> jsstring option" where
  "getUserId e = (case user_id e of Some u \<Rightarrow> Some u | None \<Rightarrow> sender_user_id e)"

text \<open>\<^verbatim>\<open>_getDisplayName\<close>; the last fallback is the four characters of "unknown player".\<close>

definition nonBlank :: "jsstring option \<Rightarrow> bool" where
  "nonBlank x = (case x of None \<Rightarrow> False | Some s \<Rightarrow> trim s \<noteq> [])"

definition getDisplayName :: "event \<Rightarrow> jsstring" where
  "getDisplayName e =
     (if nonBlank (sender_card e) then trim (the (sender_card e))
      else if nonBlank (sender_nickname e) then trim (the (sender_nickname e))
      else (case getUserId e of
              Some u \<Rightarrow> [29609, 23478] @ u
            | None \<Rightarrow> [26410, 30693, 29609, 23478]))"

section \<open>Game orchestration: processing a guess\<close>

text \<open>
  The state that a guess can touch: the key-value store and the leaderboard files.
\<close>

record world =
  redis :: redis
  leaderboards :: boards

text \<open>
  The corpus collaborator: the index of the dictionaries (\<^verbatim>\<open>lengthStats\<close>,
  \<^verbatim>\<open>globalWordSet\<close>), the set of idioms, and the pinyin of an idiom (empty when unknown).
\<close>

record corpus =
  lengthStats :: "nat set"
  globalWordSet :: "jsstring set"
  idiomSet :: "jsstring set"
  idiomPinyin :: "jsstring \<Rightarrow> jsstring"

text \<open>\<^verbatim>\<open>isValidWord\<close>; \<^verbatim>\<open>wordLength || targetWord.length\<close> takes the second for 0.\<close>

definition isValidWord :: "(jsstring \<Rightarrow> jsstring) \<Rightarrow> corpus \<Rightarrow> jsstring \<Rightarrow> nat \<Rightarrow> bool" where
  "isValidWord toLowerCase c word wordLength =
     (let targetWord = toLowerCase word;
          len = (if wordLength = 0 then length targetWord else wordLength)
      in len \<in> lengthStats c \<and> targetWord \<in> globalWordSet c)"

text \<open>\<^verbatim>\<open>isValidIdiom\<close>: four characters, all from U+4E00 to U+9FA5, and in the idiom set.\<close>

definition isValidIdiom :: "corpus \<Rightarrow> jsstring \<Rightarrow> bool" where
  "isValidIdiom c idiom \<longleftrightarrow>
     idiom \<noteq> [] \<and> length idiom = 4 \<and> list_all (\<lambda>u. 19968 \<le> u \<and> u \<le> 40869) idiom
     \<and> idiom \<in> idiomSet c"

text \<open>
  \<^verbatim>\<open>_updateLeaderboardStats\<close>: nothing is recorded outside a group, or when there is neither
  a participant nor a winner.
\<close>

definition updateLeaderboardStats :: "boards \<Rightarrow> event \<Rightarrow> game \<Rightarrow> jsstring option \<Rightarrow> boards" where
  "updateLeaderboardStats files e gameData winnerId =
     (case orNull (group_id e) of
        None \<Rightarrow> files
      | Some groupId \<Rightarrow>
         let participantsArray =
               map (\<lambda>(uid, nick).
                      Some \<lparr>participant.userId = Some uid,
                            participant.nickname =
                              Some (if nick \<noteq> [] then nick else [29609, 23478] @ uid)\<rparr>)
                   (participants gameData);
             resolvedWinnerId = winnerId;
             winnerName =
               (case orNull resolvedWinnerId of
                  None \<Rightarrow> []
                | Some wid \<Rightarrow>
                   (case map_of (participants gameData) wid of
                      Some nick \<Rightarrow> if nick \<noteq> [] then nick else getDisplayName e
                    | None \<Rightarrow> getDisplayName e))
         in if participantsArray = [] \<and> orNull resolvedWinnerId = None then files
            else recordGameResult files (Some groupId) participantsArray resolvedWinnerId
                   winnerName)"

text \<open>
  What \<^verbatim>\<open>processGuess\<close> answers: there is no running game, the guess is not in the corpus,
  or the guess was played, with the results of all guesses so far, whether it won and
  whether the game is finished.  The texts and the picture of the replies are not
  modelled.  When the game is finished, \<^verbatim>\<open>sendGameResultMessage\<close> also starts a timer that
  calls \<^verbatim>\<open>deleteGameData\<close> 100 ms later; that call is not part of this step.
\<close>

datatype 'r outcome = NoActiveGame | InvalidGuess | Played "'r list" bool bool

text \<open>\<^verbatim>\<open>groupId || actualGroupId\<close>, the group id that \<^verbatim>\<open>processGuess\<close> reads and writes with.\<close>

definition finalGroupId :: "event \<Rightarrow> jsstring option \<Rightarrow> jsstring option" where
  "finalGroupId e groupId =
     (case orNull groupId of Some g \<Rightarrow> Some g | None \<Rightarrow> fst (getGameContext e))"

text \<open>The update of \<^verbatim>\<open>participants\<close>, \<^verbatim>\<open>guesses\<close>, \<^verbatim>\<open>attempts\<close> and \<^verbatim>\<open>finished\<close> by a valid guess.\<close>

definition addParticipant :: "event \<Rightarrow> (jsstring \<times> jsstring) list \<Rightarrow> (jsstring \<times> jsstring) list" where
  "addParticipant e parts =
     (case orNull (getUserId e) of
        None \<Rightarrow> parts
      | Some currentUserId \<Rightarrow> AList.update currentUserId (getDisplayName e) parts)"

text \<open>\<^verbatim>\<open>WordGame.processGuess\<close>; \<open>userIdArg\<close> is its parameter \<^verbatim>\<open>userId\<close>.\<close>

definition word_processGuess ::
  "(jsstring \<Rightarrow> jsstring) \<Rightarrow> corpus \<Rightarrow> world \<Rightarrow> event \<Rightarrow> jsstring \<Rightarrow> jsstring option \<Rightarrow>
   jsstring option \<Rightarrow> world \<times> nat cell list outcome" where
  "word_processGuess toLowerCase c w e guess groupId userIdArg =
     (case getGameData (redis w) (finalGroupId e groupId) of
        None \<Rightarrow> (w, NoActiveGame)
      | Some currentGame \<Rightarrow>
         if finished currentGame then (w, NoActiveGame)
         else if \<not> isValidWord toLowerCase c guess (letterCount currentGame)
         then (w, InvalidGuess)
         else
           let isWin = (trim guess = trim (targetWord currentGame));
               played = currentGame
                 \<lparr>participants := addParticipant e (participants currentGame),
                  guesses := guesses currentGame @ [guess],
                  attempts := attempts currentGame + 1,
                  finished := (isWin \<or> attempts currentGame + 1 \<ge> maxAttempts currentGame)\<rparr>;
               saved = fst (saveGameData (redis w) (finalGroupId e groupId) played);
               results = map (\<lambda>g. checkGuess_word toLowerCase g (targetWord played))
                             (guesses played);
               files = (if finished played
                        then updateLeaderboardStats (leaderboards w) e played
                               (if isWin then userIdArg else None)
                        else leaderboards w)
           in (\<lparr>redis = saved, leaderboards = files\<rparr>, Played results isWin (finished played)))"

text \<open>
  \<^verbatim>\<open>IdiomGame.processGuess\<close>: as for words, with the pinyin of the guess stored beside it
  and the idiom scorer with pinyin feedback.
\<close>

definition idiom_processGuess ::
  "corpus \<Rightarrow> world \<Rightarrow> event \<Rightarrow> jsstring \<Rightarrow> jsstring option \<Rightarrow>
   jsstring option \<Rightarrow> world \<times> nat pinyin_cell list outcome" where
  "idiom_processGuess c w e guess groupId userIdArg =
     (case getGameData (redis w) (finalGroupId e groupId) of
        None \<Rightarrow> (w, NoActiveGame)
      | Some currentGame \<Rightarrow>
         if finished currentGame then (w, NoActiveGame)
         else if \<not> isValidIdiom c guess then (w, InvalidGuess)
         else
           let guessPinyin = idiomPinyin c guess;
               isWin = (trim guess = trim (targetWord currentGame));
               played = currentGame
                 \<lparr>participants := addParticipant e (participants currentGame),
                  guesses := guesses currentGame @ [guess],
                  guessesPinyin :=
                    Some ((case guessesPinyin currentGame of None \<Rightarrow> [] | Some ps \<Rightarrow> ps)
                          @ [guessPinyin]),
                  attempts := attempts currentGame + 1,
                  finished := (isWin \<or> attempts currentGame + 1 \<ge> maxAttempts currentGame)\<rparr>;
               saved = fst (saveGameData (redis w) (finalGroupId e groupId) played);
               results =
                 map (\<lambda>i. game_checkIdiomGuess (guesses played ! i) (targetWord played)
                            (case guessesPinyin played of
                               None \<Rightarrow> []
                             | Some ps \<Rightarrow> (if i < length ps then ps ! i else []))
                            (case targetPinyin played of None \<Rightarrow> [] | Some tp \<Rightarrow> tp))
                     [0..<length (guesses played)];
               files = (if finished played
                        then updateLeaderboardStats (leaderboards w) e played
                               (if isWin then userIdArg else None)
                        else leaderboards w)
           in (\<lparr>redis = saved, leaderboards = files\<rparr>, Played results isWin (finished played)))"

section \<open>Example data\<close>

text \<open>
  A rate function for the examples, to put in the place of the parameter \<open>rate\<close>: the
  percentage \<open>100 * w / g\<close> in exact arithmetic, rounded to the nearest hundredth with
  halves up, and 0 for no games.  It is not \<^verbatim>\<open>_calculateWinRate\<close>, whose doubles round
  some percentages the other way (23 wins of 160 games are 14.38 here and 14.37 there);
  at the counters of the example table, 1 of 3, 2 of 3 and 2 of 2, both give 33.33, 66.67
  and 100.
\<close>

definition exactWinRate :: "nat \<Rightarrow> nat \<Rightarrow> number" where
  "exactWinRate w g =
     (if g = 0 then 0 else of_nat ((20000 * w + g) div (2 * g)) / 100)"

definition exampleBoards :: boards where
  "exampleBoards = [js ''g1'' \<mapsto>
      [(js ''a'', \<lparr>nickname = js ''ann'', wins = 1, gamesPlayed = 3\<rparr>),
       (js ''b'', \<lparr>nickname = js ''bob'', wins = 2, gamesPlayed = 3\<rparr>),
       (js ''c'', \<lparr>nickname = js ''cy'', wins = 2, gamesPlayed = 2\<rparr>)]]"

definition exampleGame :: game where
  "exampleGame =
     \<lparr>targetWord = js ''erase'', targetPinyin = None, guesses = [], guessesPinyin = None,
      attempts = 0, maxAttempts = 8, finished = False, startTime = 0, letterCount = 5,
      gameType = None, participants = []\<rparr>"

definition privateEvent :: "jsstring \<Rightarrow> event" where
  "privateEvent u =
     \<lparr>group_id = None, user_id = Some u, sender_user_id = Some u, sender_card = None,
      sender_nickname = None\<rparr>"

definition exampleCorpus :: corpus where
  "exampleCorpus =
     \<lparr>lengthStats = {5}, globalWordSet = {js ''erase'', js ''speed''}, idiomSet = {},
      idiomPinyin = (\<lambda>s. [])\<rparr>"

definition groupEvent :: "jsstring \<Rightarrow> jsstring \<Rightarrow> event" where
  "groupEvent g u =
     \<lparr>group_id = Some g, user_id = Some u, sender_user_id = Some u, sender_card = None,
      sender_nickname = None\<rparr>"

definition exampleWorld :: world where
  "exampleWorld =
     \<lparr>redis = Some [gameKeyOf (Some (js ''g1'')) \<mapsto> exampleGame], leaderboards = exampleBoards\<rparr>"


text \<open>\<^verbatim>\<open>toLowerCase\<close> on code units, for the examples: A to Z move to a to z.\<close>

definition toLowerCaseUnits :: "jsstring \<Rightarrow> jsstring" where
  "toLowerCaseUnits = map (\<lambda>u. if 65 \<le> u \<and> u \<le> 90 then u + 32 else u)"

text \<open>The world after the private user \<^verbatim>\<open>u1\<close> has started a game: the game code saves it
  with the group id of that user's event.\<close>

definition privateWorld :: world where
  "privateWorld =
     \<lparr>redis = fst (saveGameData (Some Map.empty)
                     (fst (getGameContext (privateEvent (js ''u1'')))) exampleGame),
      leaderboards = Map.empty\<rparr>"

section \<open>Properties of the two loops\<close>

lemma fold_upt_Suc: "fold f [0..<Suc k] s = f k (fold f [0..<k] s)"
  by simp

lemma card_less_Suc_split:
  "card {i. i < Suc k \<and> Q i} = card {i. i < k \<and> Q i} + (if Q k then 1 else 0)"
proof -
  have fin: "finite {i. i < k \<and> Q i}" by simp
  have eq: "{i. i < Suc k \<and> Q i} = (if Q k then insert k {i. i < k \<and> Q i} else {i. i < k \<and> Q i})"
    by (auto simp: less_Suc_eq)
  have notin: "k \<notin> {i. i < k \<and> Q i}" by simp
  show ?thesis unfolding eq using fin notin by simp
qed

lemma pass1_result:
  "fst (fold (pass1_step mk g t) [0..<k] ([], Map.empty)) =
   map (\<lambda>i. mk i (charAt g i) (if charAt g i = charAt t i then Correct else Pending)) [0..<k]"
proof (induction k)
  case 0
  show ?case by simp
next
  case (Suc k)
  obtain r f where s: "fold (pass1_step mk g t) [0..<k] ([], Map.empty) = (r, f)"
    by (cases "fold (pass1_step mk g t) [0..<k] ([], Map.empty)")
  from Suc s have IH: "r = map (\<lambda>i. mk i (charAt g i)
              (if charAt g i = charAt t i then Correct else Pending)) [0..<k]" by simp
  show ?case
    unfolding fold_upt_Suc s using IH by (simp add: pass1_step_def Let_def)
qed

lemma pass1_freq:
  "orZero (snd (fold (pass1_step mk g t) [0..<k] ([], Map.empty)) x) =
   card {i. i < k \<and> charAt g i \<noteq> charAt t i \<and> charAt t i = x}"
proof (induction k)
  case 0
  show ?case by (simp add: orZero_def)
next
  case (Suc k)
  obtain r f where s: "fold (pass1_step mk g t) [0..<k] ([], Map.empty) = (r, f)"
    by (cases "fold (pass1_step mk g t) [0..<k] ([], Map.empty)")
  from Suc s have IH: "orZero (f x) = card {i. i < k \<and> charAt g i \<noteq> charAt t i \<and> charAt t i = x}"
    by simp
  show ?case
    unfolding card_less_Suc_split fold_upt_Suc s
    using IH by (simp add: pass1_step_def Let_def orZero_def)
qed

lemma orZero_simps: "orZero (Some n) = n" "orZero None = 0"
  by (simp_all add: orZero_def)

lemma pass2_step_effect:
  assumes s': "pass2_step g k (r, f) = (r', f')" and k: "k < length r"
  shows "length r' = length r"
    and "\<forall>i. i \<noteq> k \<longrightarrow> r' ! i = r ! i"
    and "letter (r' ! k) = letter (r ! k)"
    and "cell.more (r' ! k) = cell.more (r ! k)"
    and "status (r ! k) \<noteq> Pending \<Longrightarrow> status (r' ! k) = status (r ! k)"
    and "status (r ! k) = Pending \<Longrightarrow> status (r' ! k) = Present \<or> status (r' ! k) = Absent"
    and "(if status (r' ! k) = Present \<and> status (r ! k) = Pending \<and> charAt g k = x then 1 else 0)
           + orZero (f' x) = orZero (f x)"
proof -
  consider (keep) "status (r ! k) \<noteq> Pending" "r' = r" "f' = f"
    | (pres) "status (r ! k) = Pending" "orZero (f (charAt g k)) > 0"
        "r' = r[k := (r ! k)\<lparr>status := Present\<rparr>]"
        "f' = f(charAt g k \<mapsto> orZero (f (charAt g k)) - 1)"
    | (abs) "status (r ! k) = Pending" "\<not> orZero (f (charAt g k)) > 0"
        "r' = r[k := (r ! k)\<lparr>status := Absent\<rparr>]" "f' = f"
  proof (cases "status (r ! k) = Pending")
    case False
    then have "r' = r" "f' = f" using s' by (simp_all add: pass2_step_def)
    then show ?thesis using False keep by blast
  next
    case True
    show ?thesis
    proof (cases "orZero (f (charAt g k)) > 0")
      case pos: True
      then have "r' = r[k := (r ! k)\<lparr>status := Present\<rparr>]"
        "f' = f(charAt g k \<mapsto> orZero (f (charAt g k)) - 1)"
        using s' True by (simp_all add: pass2_step_def Let_def)
      then show ?thesis using True pos pres by blast
    next
      case zero: False
      then have "r' = r[k := (r ! k)\<lparr>status := Absent\<rparr>]" "f' = f"
        using s' True by (simp_all add: pass2_step_def Let_def)
      then show ?thesis using True zero abs by blast
    qed
  qed
  note cs = this
  show "length r' = length r" using cs by cases simp_all
  show "\<forall>i. i \<noteq> k \<longrightarrow> r' ! i = r ! i" using cs by cases simp_all
  show "letter (r' ! k) = letter (r ! k)" using cs k by cases simp_all
  show "cell.more (r' ! k) = cell.more (r ! k)" using cs k by cases simp_all
  show "status (r ! k) \<noteq> Pending \<Longrightarrow> status (r' ! k) = status (r ! k)"
    using cs k by cases simp_all
  show "status (r ! k) = Pending \<Longrightarrow> status (r' ! k) = Present \<or> status (r' ! k) = Absent"
    using cs k by cases simp_all
  show "(if status (r' ! k) = Present \<and> status (r ! k) = Pending \<and> charAt g k = x then 1 else 0)
           + orZero (f' x) = orZero (f x)"
    using cs k by cases (auto simp: orZero_simps)
qed

lemma pass2_inv:
  assumes len: "length r0 = n"
    and let0: "\<forall>i<n. letter (r0 ! i) = charAt g i"
    and st0: "\<forall>i<n. status (r0 ! i) = (if charAt g i = charAt t i then Correct else Pending)"
    and kn: "k \<le> n"
  shows "case fold (pass2_step g) [0..<k] (r0, f0) of (r, f) \<Rightarrow>
           length r = n \<and>
           (\<forall>i<n. letter (r ! i) = charAt g i \<and> cell.more (r ! i) = cell.more (r0 ! i)) \<and>
           (\<forall>i<n. if charAt g i = charAt t i then status (r ! i) = Correct
                  else if i < k then status (r ! i) = Present \<or> status (r ! i) = Absent
                  else status (r ! i) = Pending) \<and>
           (\<forall>x. card {i. i < k \<and> status (r ! i) = Present \<and> charAt g i = x} + orZero (f x)
                 = orZero (f0 x))"
  using kn
proof (induction k)
  case 0
  show ?case using len let0 st0 by simp
next
  case (Suc k)
  obtain r f where s: "fold (pass2_step g) [0..<k] (r0, f0) = (r, f)"
    by (cases "fold (pass2_step g) [0..<k] (r0, f0)")
  from Suc have kn': "k < n" by simp
  from Suc s have IH1: "length r = n"
    and IH2: "\<forall>i<n. letter (r ! i) = charAt g i \<and> cell.more (r ! i) = cell.more (r0 ! i)"
    and IH3: "\<forall>i<n. if charAt g i = charAt t i then status (r ! i) = Correct
                  else if i < k then status (r ! i) = Present \<or> status (r ! i) = Absent
                  else status (r ! i) = Pending"
    and IH4: "\<forall>x. card {i. i < k \<and> status (r ! i) = Present \<and> charAt g i = x} + orZero (f x)
                 = orZero (f0 x)"
    by simp_all
  obtain r' f' where s': "pass2_step g k (r, f) = (r', f')"
    by (cases "pass2_step g k (r, f)")
  have kr: "k < length r" using IH1 kn' by simp
  note eff = pass2_step_effect[OF s' kr]
  have stk_old: "status (r ! k) = (if charAt g k = charAt t k then Correct else Pending)"
    using IH3 kn' by (cases "charAt g k = charAt t k") auto
  have len': "length r' = n" using eff(1) IH1 by simp
  have P2: "\<forall>i<n. letter (r' ! i) = charAt g i \<and> cell.more (r' ! i) = cell.more (r0 ! i)"
  proof (intro allI impI)
    fix i assume "i < n"
    show "letter (r' ! i) = charAt g i \<and> cell.more (r' ! i) = cell.more (r0 ! i)"
    proof (cases "i = k")
      case True
      then show ?thesis using eff(3,4) IH2 \<open>i < n\<close> by simp
    next
      case False
      then show ?thesis using IH2 eff(2) \<open>i < n\<close> by simp
    qed
  qed
  have P3: "\<forall>i<n. if charAt g i = charAt t i then status (r' ! i) = Correct
                  else if i < Suc k then status (r' ! i) = Present \<or> status (r' ! i) = Absent
                  else status (r' ! i) = Pending"
  proof (intro allI impI)
    fix i assume "i < n"
    show "if charAt g i = charAt t i then status (r' ! i) = Correct
                  else if i < Suc k then status (r' ! i) = Present \<or> status (r' ! i) = Absent
                  else status (r' ! i) = Pending"
    proof (cases "i = k")
      case True
      show ?thesis
      proof (cases "charAt g k = charAt t k")
        case eq: True
        then have "status (r' ! k) = Correct" using eff(5) stk_old by simp
        then show ?thesis using True eq by simp
      next
        case neq: False
        then have "status (r' ! k) = Present \<or> status (r' ! k) = Absent"
          using eff(6) stk_old by simp
        then show ?thesis using True neq by simp
      qed
    next
      case False
      have "r' ! i = r ! i" using eff(2) False by simp
      moreover have "i < Suc k \<longleftrightarrow> i < k" using False by auto
      ultimately show ?thesis using IH3 \<open>i < n\<close> by simp
    qed
  qed
  have cardeq: "\<And>x. card {i. i < k \<and> status (r' ! i) = Present \<and> charAt g i = x}
                  = card {i. i < k \<and> status (r ! i) = Present \<and> charAt g i = x}"
  proof -
    fix x
    have "{i. i < k \<and> status (r' ! i) = Present \<and> charAt g i = x}
        = {i. i < k \<and> status (r ! i) = Present \<and> charAt g i = x}"
      using eff(2) by auto
    then show "card {i. i < k \<and> status (r' ! i) = Present \<and> charAt g i = x}
                  = card {i. i < k \<and> status (r ! i) = Present \<and> charAt g i = x}" by simp
  qed
  have pend: "status (r' ! k) = Present \<Longrightarrow> status (r ! k) = Pending"
    using eff(5) stk_old by (cases "charAt g k = charAt t k") auto
  have P4: "\<forall>x. card {i. i < Suc k \<and> status (r' ! i) = Present \<and> charAt g i = x} + orZero (f' x)
                 = orZero (f0 x)"
  proof
    fix x
    have "card {i. i < Suc k \<and> status (r' ! i) = Present \<and> charAt g i = x} + orZero (f' x)
        = card {i. i < k \<and> status (r ! i) = Present \<and> charAt g i = x}
          + ((if status (r' ! k) = Present \<and> charAt g k = x then 1 else 0) + orZero (f' x))"
      unfolding card_less_Suc_split cardeq by simp
    also have "(if status (r' ! k) = Present \<and> charAt g k = x then 1 else 0::nat)
        = (if status (r' ! k) = Present \<and> status (r ! k) = Pending \<and> charAt g k = x then 1 else 0)"
      using pend by auto
    also have "card {i. i < k \<and> status (r ! i) = Present \<and> charAt g i = x}
          + ((if status (r' ! k) = Present \<and> status (r ! k) = Pending \<and> charAt g k = x then 1 else 0)
             + orZero (f' x))
        = card {i. i < k \<and> status (r ! i) = Present \<and> charAt g i = x} + orZero (f x)"
      using eff(7)[of x] by simp
    also have "\<dots> = orZero (f0 x)" using IH4 by simp
    finally show "card {i. i < Suc k \<and> status (r' ! i) = Present \<and> charAt g i = x} + orZero (f' x)
                 = orZero (f0 x)" .
  qed
  show ?case
    unfolding fold_upt_Suc s s' using len' P2 P3 P4 by simp
qed

lemma twoPass_props:
  fixes mk :: "nat \<Rightarrow> 'a option \<Rightarrow> status \<Rightarrow> ('a, 'b) cell_scheme"
    and g t :: "'a list"
  assumes mk: "\<And>i g s. letter (mk i g s) = g \<and> status (mk i g s) = s"
  defines "r \<equiv> twoPass mk g t"
  shows "length r = length t"
    and "\<forall>i<length t. letter (r ! i) = charAt g i"
    and "\<forall>i<length t. cell.more (r ! i) = cell.more (mk i (charAt g i) Pending) \<or>
                       cell.more (r ! i) = cell.more (mk i (charAt g i) Correct)"
    and "\<forall>i<length t. if charAt g i = charAt t i then status (r ! i) = Correct
                       else status (r ! i) = Present \<or> status (r ! i) = Absent"
    and "card {i. i < length t \<and> status (r ! i) = Present \<and> charAt g i = x}
           \<le> card {i. i < length t \<and> charAt g i \<noteq> charAt t i \<and> charAt t i = x}"
proof -
  define n where "n = length t"
  define r0 where "r0 = fst (fold (pass1_step mk g t) [0..<n] ([], Map.empty))"
  define f0 where "f0 = snd (fold (pass1_step mk g t) [0..<n] ([], Map.empty))"
  have r0: "r0 = map (\<lambda>i. mk i (charAt g i) (if charAt g i = charAt t i then Correct else Pending)) [0..<n]"
    unfolding r0_def by (rule pass1_result)
  have f0: "orZero (f0 x) = card {i. i < n \<and> charAt g i \<noteq> charAt t i \<and> charAt t i = x}"
    unfolding f0_def by (rule pass1_freq)
  have len: "length r0 = n" by (simp add: r0)
  have let0: "\<forall>i<n. letter (r0 ! i) = charAt g i" by (simp add: r0 mk)
  have st0: "\<forall>i<n. status (r0 ! i) = (if charAt g i = charAt t i then Correct else Pending)"
    by (simp add: r0 mk)
  obtain r2 f2 where s2: "fold (pass2_step g) [0..<n] (r0, f0) = (r2, f2)"
    by (cases "fold (pass2_step g) [0..<n] (r0, f0)")
  have rr: "r = r2"
    unfolding r_def twoPass_def Let_def n_def[symmetric]
    using s2 by (simp add: r0_def f0_def)
  from pass2_inv[OF len let0 st0 le_refl, of f0] s2
  have A: "length r2 = n"
    and B: "\<forall>i<n. letter (r2 ! i) = charAt g i \<and> cell.more (r2 ! i) = cell.more (r0 ! i)"
    and C: "\<forall>i<n. if charAt g i = charAt t i then status (r2 ! i) = Correct
                  else if i < n then status (r2 ! i) = Present \<or> status (r2 ! i) = Absent
                  else status (r2 ! i) = Pending"
    and D: "\<forall>x. card {i. i < n \<and> status (r2 ! i) = Present \<and> charAt g i = x} + orZero (f2 x)
                 = orZero (f0 x)"
    by simp_all
  show "length r = length t" using A rr n_def by simp
  show "\<forall>i<length t. letter (r ! i) = charAt g i" using B rr n_def by simp
  show "\<forall>i<length t. cell.more (r ! i) = cell.more (mk i (charAt g i) Pending) \<or>
                       cell.more (r ! i) = cell.more (mk i (charAt g i) Correct)"
    using B rr n_def by (simp add: r0)
  show "\<forall>i<length t. if charAt g i = charAt t i then status (r ! i) = Correct
                       else status (r ! i) = Present \<or> status (r ! i) = Absent"
    using C rr n_def by simp
  have "card {i. i < n \<and> status (r2 ! i) = Present \<and> charAt g i = x} \<le> orZero (f0 x)"
    using D by (metis le_add1)
  then show "card {i. i < length t \<and> status (r ! i) = Present \<and> charAt g i = x}
           \<le> card {i. i < length t \<and> charAt g i \<noteq> charAt t i \<and> charAt t i = x}"
    using f0 rr n_def by simp
qed

lemma twoPass_marked:
  assumes mk: "\<And>i g s. letter (mk i g s) = g \<and> status (mk i g s) = s"
  shows "markedCount c (twoPass mk g t) \<le> count_list t c"
proof -
  define r where "r = twoPass mk g t"
  define n where "n = length t"
  note P = twoPass_props[where mk=mk and g=g and t=t, OF mk, folded r_def n_def]
  let ?A = "{i. i < n \<and> charAt g i = charAt t i \<and> charAt t i = Some c}"
  let ?B = "{i. i < n \<and> status (r ! i) = Present \<and> charAt g i = Some c}"
  let ?B' = "{i. i < n \<and> charAt g i \<noteq> charAt t i \<and> charAt t i = Some c}"
  have "markedCount c r = card {i. i < n \<and> letter (r ! i) = Some c \<and>
                                   (status (r ! i) = Correct \<or> status (r ! i) = Present)}"
    unfolding markedCount_def length_filter_conv_card using P(1) by simp
  also have "{i. i < n \<and> letter (r ! i) = Some c \<and>
                 (status (r ! i) = Correct \<or> status (r ! i) = Present)} = ?A \<union> ?B"
  proof (rule set_eqI)
    fix i
    show "i \<in> {i. i < n \<and> letter (r ! i) = Some c \<and>
                 (status (r ! i) = Correct \<or> status (r ! i) = Present)} \<longleftrightarrow> i \<in> ?A \<union> ?B"
    proof (cases "i < n")
      case False
      then show ?thesis by simp
    next
      case True
      with P(2) have l: "letter (r ! i) = charAt g i" by simp
      from True P(4) have s: "if charAt g i = charAt t i then status (r ! i) = Correct
                       else status (r ! i) = Present \<or> status (r ! i) = Absent" by simp
      show ?thesis using True l s by (cases "charAt g i = charAt t i") auto
    qed
  qed
  also have "card (?A \<union> ?B) \<le> card ?A + card ?B" by (rule card_Un_le)
  also have "\<dots> \<le> card ?A + card ?B'" using P(5)[where x="Some c"] by simp
  also have "\<dots> = card (?A \<union> ?B')"
    by (rule card_Un_disjoint[symmetric]) auto
  also have "?A \<union> ?B' = {i. i < n \<and> charAt t i = Some c}" by auto
  also have "\<dots> = {i. i < length t \<and> t ! i = c}"
    unfolding n_def by (auto simp: charAt_def)
  also have "card \<dots> = count_list t c"
    unfolding count_list_eq_length_filter length_filter_conv_card by (metis)
  finally show ?thesis unfolding r_def .
qed


section \<open>Properties of the scorers\<close>

lemma guarded_empty:
  "length guess \<noteq> length target \<Longrightarrow> equation_checkGuess guess target = []"
  "length guess \<noteq> length target \<Longrightarrow> checkIdiomGuess guess target = []"
  "length guess \<noteq> length target \<Longrightarrow> game_checkIdiomGuess guess target gp tp = []"
  by (simp_all add: equation_checkGuess_def checkIdiomGuess_def game_checkIdiomGuess_def)

lemma markedCount_Nil: "markedCount c [] = 0"
  by (simp add: markedCount_def)

text \<open>
  Claim C1.  For a guess and a target of equal length (for the word scorer: equal length
  after lower-casing) and every symbol \<open>c\<close>, the number of entries with symbol \<open>c\<close> that
  are marked correct or present is at most the number of occurrences of \<open>c\<close> in the target
  (for the word scorer: in the lower-cased target).  This holds for the word scorer, the
  equation scorer and both idiom scorers.
\<close>

theorem C1_marks_bounded:
  "(length (toLowerCase guess) = length (toLowerCase target) \<longrightarrow>
      markedCount c (checkGuess_word toLowerCase guess target) \<le> count_list (toLowerCase target) c)
   \<and> (length guess = length target \<longrightarrow>
      markedCount c (equation_checkGuess guess target) \<le> count_list target c)
   \<and> (length guess = length target \<longrightarrow>
      markedCount c (checkIdiomGuess guess target) \<le> count_list target c)
   \<and> (length guess = length target \<longrightarrow>
      markedCount c (game_checkIdiomGuess guess target gPinyin tPinyin)
        \<le> count_list target c)"
proof (intro conjI impI)
  show "markedCount c (checkGuess_word toLowerCase guess target) \<le> count_list (toLowerCase target) c"
    unfolding checkGuess_word_def by (rule twoPass_marked) simp
  show "markedCount c (equation_checkGuess guess target) \<le> count_list target c"
    unfolding equation_checkGuess_def
    by (auto simp: markedCount_Nil intro: twoPass_marked)
  show "markedCount c (checkIdiomGuess guess target) \<le> count_list target c"
    unfolding checkIdiomGuess_def
    by (auto simp: markedCount_Nil intro: twoPass_marked)
  show "markedCount c (game_checkIdiomGuess guess target gPinyin tPinyin)
        \<le> count_list target c"
    unfolding game_checkIdiomGuess_def Let_def
    by (auto simp: markedCount_Nil intro: twoPass_marked)
qed

theorem C1_marks_bounded_witness:
  "length (toLowerCaseAscii ''Speed'') = length (toLowerCaseAscii ''erase'')
   \<and> length ''Speed'' = length ''erase''
   \<and> markedCount CHR ''e'' (checkGuess_word toLowerCaseAscii ''Speed'' ''erase'')
       \<le> count_list (toLowerCaseAscii ''erase'') CHR ''e''
   \<and> markedCount CHR ''e'' (equation_checkGuess ''Speed'' ''erase'') \<le> count_list ''erase'' CHR ''e''
   \<and> markedCount CHR ''e'' (checkIdiomGuess ''Speed'' ''erase'') \<le> count_list ''erase'' CHR ''e''
   \<and> markedCount CHR ''e'' (game_checkIdiomGuess ''Speed'' ''erase'' [] []) \<le> count_list ''erase'' CHR ''e''"
  using C1_marks_bounded[of toLowerCaseAscii "''Speed''" "''erase''" "CHR ''e''" "[]" "[]"]
  by (simp add: toLowerCaseAscii_def)


lemma twoPass_final:
  assumes mk: "\<And>i g s. letter (mk i g s) = g \<and> status (mk i g s) = s"
    and len: "length g = length t"
  shows "length (twoPass mk g t) = length t \<and>
         (\<forall>i<length t. letter (twoPass mk g t ! i) = Some (g ! i) \<and>
            (status (twoPass mk g t ! i) = Correct \<or> status (twoPass mk g t ! i) = Present \<or>
             status (twoPass mk g t ! i) = Absent))"
proof -
  note P = twoPass_props[where mk=mk and g=g and t=t, OF mk]
  have "\<forall>i<length t. status (twoPass mk g t ! i) = Correct \<or> status (twoPass mk g t ! i) = Present \<or>
             status (twoPass mk g t ! i) = Absent"
  proof (intro allI impI)
    fix i assume "i < length t"
    with P(4) have "if charAt g i = charAt t i then status (twoPass mk g t ! i) = Correct
       else status (twoPass mk g t ! i) = Present \<or> status (twoPass mk g t ! i) = Absent" by simp
    then show "status (twoPass mk g t ! i) = Correct \<or> status (twoPass mk g t ! i) = Present \<or>
             status (twoPass mk g t ! i) = Absent"
      by (cases "charAt g i = charAt t i") auto
  qed
  moreover have "\<forall>i<length t. letter (twoPass mk g t ! i) = Some (g ! i)"
    using P(2) len by (simp add: charAt_def)
  ultimately show ?thesis using P(1) by simp
qed

lemma wellScored_Nil: "wellScored [] [] []"
  by (simp add: wellScored_def)

lemma lower_Speed: "toLowerCaseAscii ''Speed'' = ''speed''"
  by code_simp

lemma lower_erase: "toLowerCaseAscii ''erase'' = ''erase''"
  by code_simp

text \<open>
  Claim C10 as stated fails for the word scorer, which lower-cases both strings before its
  loops: for the guess \<^verbatim>\<open>Speed\<close> and the target \<^verbatim>\<open>erase\<close>, of equal length, entry 0 carries
  \<^verbatim>\<open>s\<close> and not the guess symbol \<^verbatim>\<open>S\<close>.
\<close>

theorem C10_word_entry_is_lower_cased:
  "length ''Speed'' = length ''erase''
   \<and> ''Speed'' ! 0 = CHR ''S''
   \<and> letter (checkGuess_word toLowerCaseAscii ''Speed'' ''erase'' ! 0) = Some CHR ''s''"
  by (simp add: checkGuess_word_def lower_Speed lower_erase twoPass_def pass1_step_def
        pass2_step_def charAt_def orZero_def upt_rec Let_def)

text \<open>
  Claim C10, as amended.  The equation scorer and both idiom scorers, for a guess and a
  target of equal length, return one entry for each position of the target, and entry \<open>i\<close>
  carries the guess symbol of position \<open>i\<close>.  The word scorer, for a guess and a target
  whose lower-cased strings have equal length, returns one entry for each position of the
  lower-cased target, and entry \<open>i\<close> carries the symbol of the lower-cased guess at
  position \<open>i\<close>.  In all four, the status of every entry is correct, present or absent,
  never the provisional pending.
\<close>

theorem C10_no_pending:
  "(length (toLowerCase guess) = length (toLowerCase target) \<longrightarrow>
      wellScored (toLowerCase guess) (toLowerCase target) (checkGuess_word toLowerCase guess target))
   \<and> (length guess = length target \<longrightarrow>
      wellScored guess target (equation_checkGuess guess target))
   \<and> (length guess = length target \<longrightarrow>
      wellScored guess target (checkIdiomGuess guess target))
   \<and> (length guess = length target \<longrightarrow>
      wellScored guess target (game_checkIdiomGuess guess target gPinyin tPinyin))"
proof (intro conjI impI)
  assume "length (toLowerCase guess) = length (toLowerCase target)"
  then show "wellScored (toLowerCase guess) (toLowerCase target)
               (checkGuess_word toLowerCase guess target)"
    unfolding checkGuess_word_def wellScored_def by (intro twoPass_final) simp_all
next
  assume len: "length guess = length target"
  show "wellScored guess target (equation_checkGuess guess target)"
  proof (cases "guess = []")
    case True
    then show ?thesis using len by (simp add: equation_checkGuess_def wellScored_Nil)
  next
    case False
    then have "equation_checkGuess guess target
                 = twoPass (\<lambda>i g s. \<lparr>letter = g, status = s\<rparr>) guess target"
      using len by (auto simp: equation_checkGuess_def)
    then show ?thesis unfolding wellScored_def using len by (simp add: twoPass_final)
  qed
next
  assume len: "length guess = length target"
  show "wellScored guess target (checkIdiomGuess guess target)"
  proof (cases "guess = []")
    case True
    then show ?thesis using len by (simp add: checkIdiomGuess_def wellScored_Nil)
  next
    case False
    then have "checkIdiomGuess guess target
                 = twoPass (\<lambda>i g s. \<lparr>letter = g, status = s, char = g\<rparr>) guess target"
      using len by (auto simp: checkIdiomGuess_def)
    then show ?thesis unfolding wellScored_def using len by (simp add: twoPass_final)
  qed
next
  assume len: "length guess = length target"
  show "wellScored guess target (game_checkIdiomGuess guess target gPinyin tPinyin)"
  proof (cases "guess = []")
    case True
    then show ?thesis using len by (simp add: game_checkIdiomGuess_def wellScored_Nil)
  next
    case False
    then show ?thesis unfolding wellScored_def game_checkIdiomGuess_def Let_def
      using len by (simp add: twoPass_final)
  qed
qed

theorem C10_no_pending_witness:
  "length (toLowerCaseAscii ''Speed'') = length (toLowerCaseAscii ''erase'')
   \<and> length ''Speed'' = length ''erase''
   \<and> wellScored (toLowerCaseAscii ''Speed'') (toLowerCaseAscii ''erase'')
        (checkGuess_word toLowerCaseAscii ''Speed'' ''erase'')
   \<and> wellScored ''Speed'' ''erase'' (equation_checkGuess ''Speed'' ''erase'')
   \<and> wellScored ''Speed'' ''erase'' (checkIdiomGuess ''Speed'' ''erase'')
   \<and> wellScored ''Speed'' ''erase'' (game_checkIdiomGuess ''Speed'' ''erase'' [] [])"
  using C10_no_pending[of toLowerCaseAscii "''Speed''" "''erase''" "[]" "[]"]
  by (simp add: toLowerCaseAscii_def)

section \<open>Pinyin feedback\<close>

lemma game_pinyin_at:
  assumes ne: "guess \<noteq> []" and len: "length guess = length target" and i: "i < length target"
  shows "pinyin (game_checkIdiomGuess guess target gPinyin tPinyin ! i)
         = pinyinInfoAt (length target) i (parsePinyinString gPinyin)
                        (parsePinyinString tPinyin)"
proof -
  have e: "\<And>s. (if s = [] then [] else parsePinyinString s) = parsePinyinString s"
    by (simp add: parsePinyinString_def)
  define mk :: "nat \<Rightarrow> 'a option \<Rightarrow> status \<Rightarrow> 'a pinyin_cell" where
    "mk = (\<lambda>i g s. \<lparr>letter = g, status = s, char = g,
                        pinyin = pinyinInfoAt (length target) i (parsePinyinString gPinyin)
                           (parsePinyinString tPinyin)\<rparr>)"
  have g: "game_checkIdiomGuess guess target gPinyin tPinyin = twoPass mk guess target"
    using ne len by (auto simp: game_checkIdiomGuess_def Let_def e mk_def)
  have mkp: "\<And>i g s. letter (mk i g s) = g \<and> status (mk i g s) = s" by (simp add: mk_def)
  from twoPass_props(3)[where mk=mk and g=guess and t=target, OF mkp] i
  have "cell.more (twoPass mk guess target ! i) = cell.more (mk i (charAt guess i) Pending) \<or>
        cell.more (twoPass mk guess target ! i) = cell.more (mk i (charAt guess i) Correct)"
    by simp
  then have m: "cell.more (twoPass mk guess target ! i) = cell.more (mk i (charAt guess i) Pending)"
    by (auto simp: mk_def)
  have eq: "twoPass mk guess target ! i
        = (mk i (charAt guess i) Pending)\<lparr>letter := letter (twoPass mk guess target ! i),
                                           status := status (twoPass mk guess target ! i)\<rparr>"
    by (rule cell.equality) (simp_all add: m)
  have "\<And>l s. pinyin ((mk i (charAt guess i) Pending)\<lparr>letter := l, status := s\<rparr>)
        = pinyinInfoAt (length target) i (parsePinyinString gPinyin)
            (parsePinyinString tPinyin)"
    by (simp add: mk_def)
  with arg_cong[OF eq, of pinyin]
  have "pinyin (twoPass mk guess target ! i) = pinyinInfoAt (length target) i
       (parsePinyinString gPinyin) (parsePinyinString tPinyin)"
    by (simp only:)
  then show ?thesis using g by simp
qed



lemmas pinyin_eval =
  parsePinyinString_def splitWhiteSpace_def parsePinyin_def js_def trim_def stripTone_def
  toneMap_def baseMap_def initials_def startsWith_def isWhiteSpace_def isToneDigit_def

lemma existsOther_iff:
  "existsOther n i ts P \<longleftrightarrow> (\<exists>j<n. j \<noteq> i \<and> j < length ts \<and> P (ts ! j))"
  by (auto simp: existsOther_def list_ex_iff)

text \<open>
  Claim C3.  Tone feedback of the idiom scorer at a position \<open>i\<close> where both pinyin arrays
  have a syllable.  If the tones of the guess and target syllable at \<open>i\<close> are equal and
  their finals differ, the tone status is present when another position \<open>j\<close> of the idiom
  has a target syllable with the guess's tone and the guess's final, and correct otherwise.
  If the tones differ, the tone status is present when the guess's tone is the tone of the
  target syllable of another position, and absent otherwise.
\<close>

theorem C3_tone_status:
  assumes "length guess = length target" and "i < length target"
    and "i < length (parsePinyinString gPinyin)"
    and "i < length (parsePinyinString tPinyin)"
  shows "let G = parsePinyinString gPinyin ! i;
             Ts = parsePinyinString tPinyin;
             T = Ts ! i;
             toneStatus =
               tone (pinyin (game_checkIdiomGuess guess target gPinyin tPinyin ! i))
         in (tone G = tone T \<and> final G \<noteq> final T \<longrightarrow>
               toneStatus = Some (if \<exists>j<length target. j \<noteq> i \<and> j < length Ts \<and>
                                       tone (Ts ! j) = tone G \<and> final (Ts ! j) = final G
                                  then Present else Correct))
          \<and> (tone G \<noteq> tone T \<longrightarrow>
               toneStatus = Some (if \<exists>j<length target. j \<noteq> i \<and> j < length Ts \<and>
                                       tone (Ts ! j) = tone G
                                  then Present else Absent))"
proof -
  from assms(1,2) have ne: "guess \<noteq> []" by auto
  show ?thesis
    unfolding Let_def game_pinyin_at[OF ne assms(1,2)]
    using assms(3,4) by (simp add: pinyinInfoAt_def existsOther_iff Let_def)
qed

theorem C3_tone_status_witness:
  "length ''abcd'' = length ''abdc'' \<and> 3 < length ''abdc'' \<and> 1 < length ''abdc''
   \<and> 3 < length (parsePinyinString (js ''zhong1 guo2 ren2 min2''))
   \<and> 3 < length (parsePinyinString (js ''zhang1 guo3 min4 ren2''))
   \<and> tone (pinyin (game_checkIdiomGuess ''abcd'' ''abdc'' (js ''zhong1 guo2 ren2 min2'')
                      (js ''zhang1 guo3 min4 ren2'') ! 3)) = Some Correct
   \<and> tone (pinyin (game_checkIdiomGuess ''abcd'' ''abdc'' (js ''zhong1 guo2 ren2 min2'')
                      (js ''zhang1 guo3 min4 ren2'') ! 1)) = Some Present"
proof -
  have g: "parsePinyinString (js ''zhong1 guo2 ren2 min2'')
       = [\<lparr>initial = [122, 104], final = [111, 110, 103], tone = 1\<rparr>,
          \<lparr>initial = [103], final = [117, 111], tone = 2\<rparr>,
          \<lparr>initial = [114], final = [101, 110], tone = 2\<rparr>,
          \<lparr>initial = [109], final = [105, 110], tone = 2\<rparr>]"
    by (simp add: pinyin_eval)
  have t: "parsePinyinString (js ''zhang1 guo3 min4 ren2'')
       = [\<lparr>initial = [122, 104], final = [97, 110, 103], tone = 1\<rparr>,
          \<lparr>initial = [103], final = [117, 111], tone = 3\<rparr>,
          \<lparr>initial = [109], final = [105, 110], tone = 4\<rparr>,
          \<lparr>initial = [114], final = [101, 110], tone = 2\<rparr>]"
    by (simp add: pinyin_eval)
  have j4: "\<And>P. (\<exists>j<Suc (Suc (Suc (Suc 0))). P j) \<longleftrightarrow> P 0 \<or> P (Suc 0) \<or> P (Suc (Suc 0)) \<or> P (Suc (Suc (Suc 0)))"
    by (auto simp: less_Suc_eq)
  have a: "tone (pinyin (game_checkIdiomGuess ''abcd'' ''abdc'' (js ''zhong1 guo2 ren2 min2'')
                      (js ''zhang1 guo3 min4 ren2'') ! 3)) = Some Correct"
    using C3_tone_status[of "''abcd''" "''abdc''" 3 "js ''zhong1 guo2 ren2 min2''"
        "js ''zhang1 guo3 min4 ren2''"]
    by (simp add: g t Let_def j4)
  have b: "tone (pinyin (game_checkIdiomGuess ''abcd'' ''abdc'' (js ''zhong1 guo2 ren2 min2'')
                      (js ''zhang1 guo3 min4 ren2'') ! 1)) = Some Present"
    using C3_tone_status[of "''abcd''" "''abdc''" 1 "js ''zhong1 guo2 ren2 min2''"
        "js ''zhang1 guo3 min4 ren2''"]
    by (simp add: g t Let_def j4)
  show ?thesis using a b by (simp add: g t)
qed

text \<open>
  Claim C9.  \<^verbatim>\<open>parsePinyin\<close> of \<^verbatim>\<open>zh\<close>, \<^verbatim>\<open>o\<close> with macron (U+014D), \<^verbatim>\<open>ng\<close> is initial \<^verbatim>\<open>zh\<close>, final
  \<^verbatim>\<open>ong\<close>, tone 1, and so is \<^verbatim>\<open>parsePinyin\<close> of \<^verbatim>\<open>zhong1\<close>; the table entry found for
  \<^verbatim>\<open>zhong\<close> is \<^verbatim>\<open>zh\<close>, not \<^verbatim>\<open>z\<close>.
\<close>

theorem C9_parse_zhong:
  "parsePinyin [122, 104, 333, 110, 103] = \<lparr>initial = js ''zh'', final = js ''ong'', tone = 1\<rparr>
   \<and> parsePinyin (js ''zhong1'') = \<lparr>initial = js ''zh'', final = js ''ong'', tone = 1\<rparr>
   \<and> find (startsWith (js ''zhong'')) initials = Some (js ''zh'')"
  by (simp add: pinyin_eval)

text \<open>
  Claim C2.  The equation scorer and both idiom scorers return the empty sequence when
  the lengths differ (\<open>guarded_empty\<close>).  The word scorer compares no lengths: for the
  guess \<^verbatim>\<open>ab\<close> and the target \<^verbatim>\<open>abc\<close> it returns three entries, the last one with an
  undefined letter.
\<close>

theorem C2_word_scorer_unguarded:
  "checkGuess_word toLowerCaseAscii ''ab'' ''abc''
     = [\<lparr>letter = Some CHR ''a'', status = Correct\<rparr>,
        \<lparr>letter = Some CHR ''b'', status = Correct\<rparr>,
        \<lparr>letter = None, status = Absent\<rparr>]"
  by (simp add: checkGuess_word_def toLowerCaseAscii_def twoPass_def pass1_step_def pass2_step_def
        charAt_def orZero_def upt_rec Let_def)


section \<open>Rankings\<close>

lemma set_insertBy: "set (insertBy cmp x ys) = insert x (set ys)"
  by (induction ys) auto

lemma set_sortBy: "set (sortBy cmp xs) = set xs"
  unfolding sortBy_def by (induction xs) (simp_all add: set_insertBy)

lemma set_slice0: "set (slice0 xs limit) \<subseteq> set xs"
  unfolding slice0_def by (auto dest: in_set_takeD)

lemma set_rankPlayers_rate:
  "set (rankPlayers lc players SortRate limit) \<subseteq> {p \<in> set players. 3 \<le> gamesPlayed p}"
proof -
  have "set (rankPlayers lc players SortRate limit)
          \<subseteq> set (sortBy (cmpRate lc) (filter (\<lambda>p. gamesPlayed p \<ge> 3) players))"
    unfolding rankPlayers_def by (simp add: set_slice0)
  then show ?thesis by (auto simp: set_sortBy)
qed

text \<open>
  Claim C7.  Every row of a ranking by rate, of one scope or merged over all scopes and
  for every limit, has at least 3 games played and is a row of the table that was ranked:
  an entry with fewer than 3 games never appears, whatever its win rate.
\<close>

theorem C7_rate_floor:
  "(\<forall>p \<in> set (getLeaderboard rate lc files groupId SortRate limit).
      3 \<le> gamesPlayed p \<and> p \<in> set (map (toPlayer rate) (readLeaderboard files groupId)))
   \<and> (\<forall>p \<in> set (getGlobalLeaderboard rate lc files groupIds SortRate limit).
      3 \<le> gamesPlayed p \<and> p \<in> set (map (toPlayer rate) (mergeBoards files groupIds)))"
  unfolding getLeaderboard_def getGlobalLeaderboard_def
  using set_rankPlayers_rate by blast

lemma sorted_insertBy:
  assumes tot: "\<And>a b. cmp a b \<le> 0 \<or> cmp b a \<le> 0"
    and trans: "\<And>a b c. cmp a b \<le> 0 \<Longrightarrow> cmp b c \<le> 0 \<Longrightarrow> cmp a c \<le> 0"
  shows "sorted_wrt (\<lambda>a b. cmp a b \<le> 0) ys \<Longrightarrow> sorted_wrt (\<lambda>a b. cmp a b \<le> 0) (insertBy cmp x ys)"
proof (induction ys)
  case Nil
  show ?case by simp
next
  case (Cons y ys)
  show ?case
  proof (cases "cmp x y \<le> 0")
    case True
    have "\<forall>z \<in> set ys. cmp x z \<le> 0"
      using Cons.prems True trans by auto
    then show ?thesis using True Cons.prems by simp
  next
    case False
    then have yx: "cmp y x \<le> 0" using tot by blast
    have "sorted_wrt (\<lambda>a b. cmp a b \<le> 0) (insertBy cmp x ys)"
      using Cons by simp
    then show ?thesis using False yx Cons.prems by (simp add: set_insertBy)
  qed
qed

lemma sorted_sortBy:
  assumes tot: "\<And>a b. cmp a b \<le> 0 \<or> cmp b a \<le> 0"
    and trans: "\<And>a b c. cmp a b \<le> 0 \<Longrightarrow> cmp b c \<le> 0 \<Longrightarrow> cmp a c \<le> 0"
  shows "sorted_wrt (\<lambda>a b. cmp a b \<le> 0) (sortBy cmp xs)"
  unfolding sortBy_def
proof (induction xs)
  case Nil
  show ?case by simp
next
  case (Cons x xs)
  then show ?case using sorted_insertBy[of cmp, OF tot trans] by simp
qed

lemma sorted_wrt_take: "sorted_wrt P xs \<Longrightarrow> sorted_wrt P (take n xs)"
  by (metis append_take_drop_id sorted_wrt_append)

lemma sorted_slice0: "sorted_wrt P xs \<Longrightarrow> sorted_wrt P (slice0 xs limit)"
  unfolding slice0_def by (simp add: sorted_wrt_take)

lemma cmpGames_le: "cmpGames lc a b \<le> 0 \<longleftrightarrow> gamesOrder lc a b"
  unfolding cmpGames_def gamesOrder_def by auto

lemma gamesOrder_total:
  assumes "consistent lc" shows "gamesOrder lc a b \<or> gamesOrder lc b a"
proof -
  from assms have "lc (userId a) (userId b) \<le> 0 \<or> lc (userId b) (userId a) \<le> 0"
    unfolding consistent_def by blast
  then show ?thesis unfolding gamesOrder_def by auto
qed

lemma gamesOrder_trans:
  assumes c: "consistent lc" and ab: "gamesOrder lc a b" and bc: "gamesOrder lc b c"
  shows "gamesOrder lc a c"
proof -
  have tr: "\<And>x y z. lc x y \<le> 0 \<Longrightarrow> lc y z \<le> 0 \<Longrightarrow> lc x z \<le> 0"
    using c unfolding consistent_def by blast
  show ?thesis
    using ab bc tr[of "userId a" "userId b" "userId c"]
    unfolding gamesOrder_def by auto
qed

lemma rankPlayers_games_sorted:
  assumes "consistent lc"
  shows "sorted_wrt (gamesOrder lc) (rankPlayers lc players SortGames limit)"
proof -
  have "sorted_wrt (\<lambda>a b. cmpGames lc a b \<le> 0) (sortBy (cmpGames lc) players)"
  proof (rule sorted_sortBy)
    show "\<And>a b. cmpGames lc a b \<le> 0 \<or> cmpGames lc b a \<le> 0"
      using gamesOrder_total[OF assms] by (simp add: cmpGames_le)
    show "\<And>a b c. cmpGames lc a b \<le> 0 \<Longrightarrow> cmpGames lc b c \<le> 0 \<Longrightarrow> cmpGames lc a c \<le> 0"
      using gamesOrder_trans[OF assms] by (simp add: cmpGames_le)
  qed
  then have "sorted_wrt (gamesOrder lc) (sortBy (cmpGames lc) players)"
    by (simp add: cmpGames_le)
  then show ?thesis unfolding rankPlayers_def by (simp add: sorted_slice0)
qed

text \<open>
  Claim C5, as amended.  When the collation is a consistent comparison, a ranking by games
  (of one scope or merged) is ordered by games played descending, then by wins descending,
  then by player id ascending: of two rows with equal games played the one with more wins
  comes first, and only rows with equal games played and equal wins are ordered by id.
\<close>

theorem C5_games_order:
  assumes "consistent localeCompare"
  shows "sorted_wrt (gamesOrder localeCompare)
           (getLeaderboard rate localeCompare files groupId SortGames limit)
       \<and> sorted_wrt (gamesOrder localeCompare)
           (getGlobalLeaderboard rate localeCompare files groupIds SortGames limit)"
  unfolding getLeaderboard_def getGlobalLeaderboard_def
  using rankPlayers_games_sorted[OF assms] by simp

lemma compareUnits_total: "compareUnits a b \<le> 0 \<or> compareUnits b a \<le> 0"
proof (induction a b rule: compareUnits.induct)
  case 1
  show ?case by simp
next
  case (2 y ys)
  show ?case by simp
next
  case (3 x xs)
  show ?case by simp
next
  case (4 x xs y ys)
  consider "x < y" | "y < x" | "x = y" by linarith
  then show ?case
  proof cases
    case 1
    then show ?thesis by simp
  next
    case 2
    then show ?thesis by simp
  next
    case 3
    then show ?thesis using 4 by simp
  qed
qed

lemma compareUnits_Cons_le:
  "compareUnits (x # xs) (y # ys) \<le> 0 \<longleftrightarrow> x < y \<or> (x = y \<and> compareUnits xs ys \<le> 0)"
  by (cases "x < y"; cases "y < x"; simp)

lemma compareUnits_Nil_le: "compareUnits [] b \<le> 0"
  by (cases b) simp_all

lemma compareUnits_le_Nil: "compareUnits a [] \<le> 0 \<longleftrightarrow> a = []"
  by (cases a) simp_all

lemma compareUnits_trans:
  "compareUnits a b \<le> 0 \<Longrightarrow> compareUnits b c \<le> 0 \<Longrightarrow> compareUnits a c \<le> 0"
proof (induction a arbitrary: b c)
  case Nil
  show ?case by (rule compareUnits_Nil_le)
next
  case (Cons x xs)
  from Cons.prems(1) obtain y ys where b: "b = y # ys"
    by (cases b) (simp_all add: compareUnits_le_Nil)
  from Cons.prems(2) b obtain z zs where c: "c = z # zs"
    by (cases c) (simp_all add: compareUnits_le_Nil)
  from Cons.prems(1) b have xy: "x < y \<or> (x = y \<and> compareUnits xs ys \<le> 0)"
    by (simp only: compareUnits_Cons_le)
  from Cons.prems(2) b c have yz: "y < z \<or> (y = z \<and> compareUnits ys zs \<le> 0)"
    by (simp only: compareUnits_Cons_le)
  have "x < z \<or> (x = z \<and> compareUnits xs zs \<le> 0)"
    using xy yz Cons.IH[of ys zs] by auto
  then show ?case unfolding c by (simp only: compareUnits_Cons_le)
qed

lemma consistent_compareUnits: "consistent compareUnits"
  unfolding consistent_def using compareUnits_total compareUnits_trans by blast


section \<open>Recording a result\<close>

















section \<open>The leaderboard on the example table\<close>

lemmas rank_eval = getLeaderboard_def getGlobalLeaderboard_def rankPlayers_def readLeaderboard_def
  leaderboardId_def toPlayer_def sortBy_def slice0_def cmpGames_def cmpRate_def cmpWins_def
  mergeBoards_def mergeEntry_def js_def exactWinRate_def exampleBoards_def

text \<open>
  Claim C5 as stated fails: in the example table the players \<^verbatim>\<open>a\<close> and \<^verbatim>\<open>b\<close> both have 3
  games played, and the ranking by games puts \<^verbatim>\<open>b\<close> (2 wins) before \<^verbatim>\<open>a\<close> (1 win), although
  \<^verbatim>\<open>b\<close> compares greater than \<^verbatim>\<open>a\<close>.
\<close>

theorem C5_equal_games_ordered_by_wins:
  "map userId (getLeaderboard exactWinRate compareUnits exampleBoards (Some (js ''g1''))
                 SortGames 10) = [js ''b'', js ''a'', js ''c'']
   \<and> map gamesPlayed (getLeaderboard exactWinRate compareUnits exampleBoards (Some (js ''g1''))
                 SortGames 10) = [3, 3, 2]
   \<and> map wins (getLeaderboard exactWinRate compareUnits exampleBoards (Some (js ''g1''))
                 SortGames 10) = [2, 1, 2]
   \<and> compareUnits (js ''b'') (js ''a'') = 1"
  by (simp add: rank_eval)

theorem C5_games_order_witness:
  "consistent compareUnits
   \<and> sorted_wrt (gamesOrder compareUnits)
       (getLeaderboard exactWinRate compareUnits exampleBoards (Some (js ''g1'')) SortGames 10)
   \<and> sorted_wrt (gamesOrder compareUnits)
       (getGlobalLeaderboard exactWinRate compareUnits exampleBoards [js ''g1''] SortGames 10)
   \<and> map userId (getGlobalLeaderboard exactWinRate compareUnits exampleBoards [js ''g1'']
                 SortGames 10) = [js ''b'', js ''a'', js ''c'']"
  using C5_games_order[OF consistent_compareUnits, of exactWinRate exampleBoards
      "Some (js ''g1'')" 10 "[js ''g1'']"]
  by (simp add: consistent_compareUnits rank_eval)

theorem C7_rate_floor_witness:
  "map userId (getLeaderboard exactWinRate compareUnits exampleBoards (Some (js ''g1''))
                 SortRate 10) = [js ''b'', js ''a'']
   \<and> list_all (\<lambda>p. 3 \<le> gamesPlayed p)
        (getLeaderboard exactWinRate compareUnits exampleBoards (Some (js ''g1'')) SortRate 10)
   \<and> map userId (getGlobalLeaderboard exactWinRate compareUnits exampleBoards [js ''g1'']
                 SortRate 10) = [js ''b'', js ''a'']
   \<and> list_all (\<lambda>p. 3 \<le> gamesPlayed p)
        (getGlobalLeaderboard exactWinRate compareUnits exampleBoards [js ''g1''] SortRate 10)"
proof -
  have a: "map userId (getLeaderboard exactWinRate compareUnits exampleBoards (Some (js ''g1''))
                 SortRate 10) = [js ''b'', js ''a'']"
    by (simp add: rank_eval)
  have b: "map userId (getGlobalLeaderboard exactWinRate compareUnits exampleBoards [js ''g1'']
                 SortRate 10) = [js ''b'', js ''a'']"
    by (simp add: rank_eval)
  show ?thesis
    using C7_rate_floor[of exactWinRate compareUnits exampleBoards "Some (js ''g1'')" 10
        "[js ''g1'']"] a b
    by (simp add: list_all_iff)
qed


section \<open>Sessions\<close>

text \<open>
  Claim C8.  When the scope has a running game and the guess fails the validity check of
  the corpus, \<^verbatim>\<open>processGuess\<close> of the word game and of the idiom game return the state as
  it was: the stored session (guesses, attempts, participants, finished) and everything
  else are unchanged, and the answer is that the guess is invalid.
\<close>

theorem C8_invalid_guess_no_change:
  "(getGameData (redis w) (finalGroupId e groupId) = Some g \<and> \<not> finished g \<and>
      \<not> isValidWord toLowerCase c guess (letterCount g) \<longrightarrow>
      word_processGuess toLowerCase c w e guess groupId userIdArg = (w, InvalidGuess))
   \<and> (getGameData (redis w) (finalGroupId e groupId) = Some g \<and> \<not> finished g \<and>
      \<not> isValidIdiom c guess \<longrightarrow>
      idiom_processGuess c w e guess groupId userIdArg = (w, InvalidGuess))"
  by (simp add: word_processGuess_def idiom_processGuess_def)

lemmas store_eval = getGameData_def saveGameData_def deleteGameData_def gameKeyOf_def
  finalGroupId_def getGameContext_def orNull_def js_def Let_def

theorem C8_invalid_guess_no_change_witness:
  "getGameData (redis exampleWorld) (finalGroupId (groupEvent (js ''g1'') (js ''a'')) None)
     = Some exampleGame
   \<and> \<not> finished exampleGame
   \<and> \<not> isValidWord toLowerCaseUnits exampleCorpus (js ''zzzzz'') (letterCount exampleGame)
   \<and> \<not> isValidIdiom exampleCorpus (js ''zzzzz'')
   \<and> word_processGuess toLowerCaseUnits exampleCorpus exampleWorld (groupEvent (js ''g1'') (js ''a''))
        (js ''zzzzz'') None (Some (js ''a'')) = (exampleWorld, InvalidGuess)
   \<and> idiom_processGuess exampleCorpus exampleWorld (groupEvent (js ''g1'') (js ''a''))
        (js ''zzzzz'') None (Some (js ''a'')) = (exampleWorld, InvalidGuess)"
proof -
  have h1: "getGameData (redis exampleWorld) (finalGroupId (groupEvent (js ''g1'') (js ''a'')) None)
     = Some exampleGame"
    by (simp add: exampleWorld_def groupEvent_def store_eval)
  have h2: "\<not> finished exampleGame" by (simp add: exampleGame_def)
  have h3: "\<not> isValidWord toLowerCaseUnits exampleCorpus (js ''zzzzz'') (letterCount exampleGame)"
    by (simp add: isValidWord_def exampleCorpus_def exampleGame_def toLowerCaseUnits_def js_def)
  have h4: "\<not> isValidIdiom exampleCorpus (js ''zzzzz'')"
    by (simp add: isValidIdiom_def exampleCorpus_def)
  show ?thesis
    using C8_invalid_guess_no_change[of exampleWorld "groupEvent (js ''g1'') (js ''a'')" None
        exampleGame toLowerCaseUnits exampleCorpus "js ''zzzzz''" "Some (js ''a'')"]
      h1 h2 h3 h4
    by simp
qed

lemma gameKeyOf_Some_inj: "gameKeyOf (Some g1) = gameKeyOf (Some g2) \<longleftrightarrow> g1 = g2"
  by (simp add: gameKeyOf_def)

lemma group_sessions_isolated:
  assumes "g1 \<noteq> g2"
  shows "getGameData (fst (saveGameData r (Some g1) x)) (Some g2) = getGameData r (Some g2)"
    and "getGameData (fst (deleteGameData r (Some g1))) (Some g2) = getGameData r (Some g2)"
  using assms
  by (simp_all add: getGameData_def saveGameData_def deleteGameData_def gameKeyOf_Some_inj
      split: option.splits)

lemma session_read_own_write:
  "getGameData (fst (saveGameData (Some kv) g x)) g = Some x"
  by (simp add: getGameData_def saveGameData_def)

text \<open>
  Claim C4.  Sessions of different groups are isolated (\<open>group_sessions_isolated\<close>).  Private
  users are not: the events of the users \<^verbatim>\<open>u1\<close> and \<^verbatim>\<open>u2\<close> have the distinct game keys
  \<^verbatim>\<open>private_u1\<close> and \<^verbatim>\<open>private_u2\<close>, but the store is called with the group id, which is
  \<^verbatim>\<open>null\<close> for both.  The game saved for \<^verbatim>\<open>u1\<close> is what \<^verbatim>\<open>u2\<close> reads, deleting the session of
  \<^verbatim>\<open>u2\<close> removes it, and a guess of \<^verbatim>\<open>u2\<close> is played on it.
\<close>

theorem C4_private_sessions_share_key:
  "snd (snd (getGameContext (privateEvent (js ''u1'')))) = Some (js ''private_u1'')
   \<and> snd (snd (getGameContext (privateEvent (js ''u2'')))) = Some (js ''private_u2'')
   \<and> getGameData (redis privateWorld) (fst (getGameContext (privateEvent (js ''u2''))))
       = Some exampleGame
   \<and> getGameData
        (fst (deleteGameData (redis privateWorld)
               (fst (getGameContext (privateEvent (js ''u2''))))))
        (fst (getGameContext (privateEvent (js ''u1'')))) = None
   \<and> map_option guesses
        (getGameData
           (redis (fst (word_processGuess toLowerCaseUnits exampleCorpus privateWorld
                          (privateEvent (js ''u2'')) (js ''speed'') None (Some (js ''u2'')))))
           (fst (getGameContext (privateEvent (js ''u1''))))) = Some [js ''speed'']"
  by (simp add: word_processGuess_def privateWorld_def privateEvent_def store_eval
      isValidWord_def exampleCorpus_def exampleGame_def toLowerCaseUnits_def)

end
